theory Spec2Isabelle
  imports Main
begin

section \<open>Python values\<close>

text \<open>
  A Python \<open>str\<close> is a sequence of Unicode code points and \<open>len\<close>, slicing, \<open>split\<close> and
  the regular expressions of \<open>re\<close> all count code points, so a \<open>str\<close> is modelled as a list
  of code points. The sources contain literals outside Latin-1 (the Chinese keywords of the
  verification-code patterns), which a list of 8-bit characters could not hold.
  \<open>bytes\<close> are lists of numbers below 256. \<open>str\<close> turns an ASCII literal of the source
  into its code points.
\<close>

type_synonym pystr = "nat list"
type_synonym bytes = "nat list"

definition str :: "string \<Rightarrow> pystr" where
  "str = map of_char"

text \<open>The exceptions that the modelled code can meet. Every one is a subclass of
  \<open>Exception\<close>, so \<open>except Exception\<close> catches each of them.\<close>

datatype exn =
    ValueError
  | TypeError
  | AttributeError
  | UnicodeError
  | InvalidToken
  | ZeroDivisionError
  | OtherError

text \<open>
  What the interpreter's Unicode database and settings decide is a parameter of the
  model (the tables differ between Python versions): \<open>decimal\<close> is the value of a
  decimal digit (category Nd), \<open>isspace\<close>, \<open>isdigit\<close> and \<open>isalnum\<close> are the character
  predicates behind \<open>str.strip\<close>, \<open>str.isdigit\<close> and the classes \<open>\s\<close>, \<open>\d\<close>, \<open>\w\<close> of
  \<open>re\<close>, \<open>lower\<close> is \<open>str.lower\<close>, \<open>ignorecase_eq\<close> says whether two characters are the
  same under \<open>re.IGNORECASE\<close>, and \<open>int_max_str_digits\<close> is
  \<open>sys.get_int_max_str_digits()\<close> (0 for no limit, 4300 by default since Python 3.11).
  A \<open>datetime\<close> without time zone is the number of its microseconds on some fixed scale;
  \<open>strptime s\<close> is \<open>datetime.strptime(s, "%Y-%m-%d %H:%M:%S")\<close>, \<open>fromisoformat\<close> is
  \<open>datetime.fromisoformat\<close> and \<open>datetime_min\<close> is \<open>datetime.min\<close>.
\<close>

record python =
  decimal :: "nat \<Rightarrow> nat option"
  isspace :: "nat \<Rightarrow> bool"
  isdigit :: "nat \<Rightarrow> bool"
  isalnum :: "nat \<Rightarrow> bool"
  lower :: "pystr \<Rightarrow> pystr"
  ignorecase_eq :: "nat \<Rightarrow> nat \<Rightarrow> bool"
  int_max_str_digits :: nat
  strptime :: "pystr \<Rightarrow> exn + int"
  fromisoformat :: "pystr \<Rightarrow> exn + int"
  datetime_min :: int

subsection \<open>str methods\<close>

definition startswith :: "pystr \<Rightarrow> pystr \<Rightarrow> bool" where
  "startswith s p = (take (length p) s = p)"

definition endswith :: "pystr \<Rightarrow> pystr \<Rightarrow> bool" where
  "endswith s p = (length p \<le> length s \<and> drop (length s - length p) s = p)"

text \<open>\<open>sub in s\<close> for two strings: \<open>sub\<close> occurs somewhere in \<open>s\<close>.\<close>

fun contains :: "pystr \<Rightarrow> pystr \<Rightarrow> bool" where
  "contains [] sub = (sub = [])"
| "contains (c # cs) sub = (startswith (c # cs) sub \<or> contains cs sub)"

text \<open>\<open>s.replace(old, new)\<close>: the occurrences of \<open>old\<close> are found from the left and do
  not overlap. With an empty \<open>old\<close>, Python puts \<open>new\<close> before every character and at
  the end.\<close>

function replace_from :: "pystr \<Rightarrow> pystr \<Rightarrow> pystr \<Rightarrow> pystr" where
  "replace_from [] old new = []"
| "replace_from (c # cs) old new =
     (if old \<noteq> [] \<and> startswith (c # cs) old
      then new @ replace_from (drop (length old) (c # cs)) old new
      else c # replace_from cs old new)"
  by pat_completeness auto
termination
  by (relation "measure (\<lambda>(s, old, new). length s)") (auto simp: neq_Nil_conv)

definition replace :: "pystr \<Rightarrow> pystr \<Rightarrow> pystr \<Rightarrow> pystr" where
  "replace s old new =
     (if old = [] then new @ concat (map (\<lambda>c. c # new) s) else replace_from s old new)"

text \<open>\<open>s.split(sep)\<close> for a separator that is not empty (an empty one raises
  \<open>ValueError\<close>; the sources split at \<open>'\n'\<close> and \<open>'----'\<close> only). \<open>split_from cur s sep\<close>
  carries the piece read so far.\<close>

function split_from :: "pystr \<Rightarrow> pystr \<Rightarrow> pystr \<Rightarrow> pystr list" where
  "split_from cur [] sep = [cur]"
| "split_from cur (c # cs) sep =
     (if sep \<noteq> [] \<and> startswith (c # cs) sep
      then cur # split_from [] (drop (length sep) (c # cs)) sep
      else split_from (cur @ [c]) cs sep)"
  by pat_completeness auto
termination
  by (relation "measure (\<lambda>(cur, s, sep). length s)") (auto simp: neq_Nil_conv)

definition split :: "pystr \<Rightarrow> pystr \<Rightarrow> pystr list" where
  "split s sep = split_from [] s sep"

text \<open>\<open>s.strip()\<close>: the whitespace of both ends removed.\<close>

definition strip :: "python \<Rightarrow> pystr \<Rightarrow> pystr" where
  "strip P s = rev (dropWhile (isspace P) (rev (dropWhile (isspace P) s)))"

subsection \<open>int(s)\<close>

text \<open>
  \<open>int(s)\<close> of a \<open>str\<close>, base 10, as CPython reads it. The string is first brought to
  ASCII: a character below 127 stays, a Unicode space becomes a blank, a Unicode
  decimal digit becomes its ASCII digit, and anything else is an error. The ASCII text
  is then: blanks (the C locale's: tab to carriage return, and space), an optional sign,
  digits with single underscores between them, blanks. More digits than
  \<open>int_max_str_digits\<close> (when that is not 0) are a \<open>ValueError\<close> as well. \<open>None\<close> is
  the \<open>ValueError\<close>.
\<close>

definition to_ascii_char :: "python \<Rightarrow> nat \<Rightarrow> nat option" where
  "to_ascii_char P c =
     (if c < 127 then Some c
      else if isspace P c then Some 32
      else (case decimal P c of Some d \<Rightarrow> Some (48 + d) | None \<Rightarrow> None))"

fun to_ascii :: "python \<Rightarrow> pystr \<Rightarrow> pystr option" where
  "to_ascii P [] = Some []"
| "to_ascii P (c # cs) =
     (case to_ascii_char P c of
        None \<Rightarrow> None
      | Some a \<Rightarrow> (case to_ascii P cs of None \<Rightarrow> None | Some as \<Rightarrow> Some (a # as)))"

definition c_isspace :: "nat \<Rightarrow> bool" where
  "c_isspace c = ((9 \<le> c \<and> c \<le> 13) \<or> c = 32)"

definition c_isdigit :: "nat \<Rightarrow> bool" where
  "c_isdigit c = (48 \<le> c \<and> c \<le> 57)"

text \<open>\<open>scan_digits acc n s\<close>: the digits at the front of \<open>s\<close>, \<open>acc\<close> the value and \<open>n\<close>
  the number of digits read so far; an underscore is read only between two digits. The
  result is the value, the number of digits and the rest.\<close>

fun scan_digits :: "nat \<Rightarrow> nat \<Rightarrow> pystr \<Rightarrow> nat \<times> nat \<times> pystr" where
  "scan_digits acc n [] = (acc, n, [])"
| "scan_digits acc n (c # cs) =
     (if c_isdigit c then scan_digits (acc * 10 + (c - 48)) (Suc n) cs
      else if c = 95 \<and> 0 < n \<and> (case cs of [] \<Rightarrow> False | d # ds \<Rightarrow> c_isdigit d)
      then scan_digits acc n cs
      else (acc, n, c # cs))"

definition py_int :: "python \<Rightarrow> pystr \<Rightarrow> int option" where
  "py_int P s =
     (case to_ascii P s of
        None \<Rightarrow> None
      | Some a \<Rightarrow>
          (let b = dropWhile c_isspace a;
               negative = (case b of [] \<Rightarrow> False | c # cs \<Rightarrow> c = 45);
               d = (case b of [] \<Rightarrow> [] | c # cs \<Rightarrow> if c = 43 \<or> c = 45 then cs else b)
           in case scan_digits 0 0 d of
                (v, n, rest) \<Rightarrow>
                  if n = 0 \<or> dropWhile c_isspace rest \<noteq> [] then None
                  else if int_max_str_digits P \<noteq> 0 \<and> int_max_str_digits P < n then None
                  else Some (if negative then - int v else int v)))"

subsection \<open>JSON\<close>

text \<open>What \<open>json\<close> decoding gives: \<open>None\<close>, \<open>bool\<close>, \<open>int\<close>, \<open>str\<close>, \<open>list\<close> and \<open>dict\<close>
  (a \<open>dict\<close> as the list of its items, each key once). Numbers with a fraction are left
  out.\<close>

datatype json =
    JNull
  | JBool bool
  | JInt int
  | JStr pystr
  | JList "json list"
  | JObj "(pystr \<times> json) list"

text \<open>Truth value of a decoded JSON value (\<open>if v:\<close>).\<close>

fun truthy :: "json \<Rightarrow> bool" where
  "truthy JNull = False"
| "truthy (JBool b) = b"
| "truthy (JInt i) = (i \<noteq> 0)"
| "truthy (JStr s) = (s \<noteq> [])"
| "truthy (JList xs) = (xs \<noteq> [])"
| "truthy (JObj kv) = (kv \<noteq> [])"

text \<open>\<open>d.get(key)\<close> and \<open>d.get(key, default)\<close>: only a \<open>dict\<close> has the method, on any
  other value the call is an \<open>AttributeError\<close>.\<close>

fun json_get :: "json \<Rightarrow> pystr \<Rightarrow> json \<Rightarrow> exn + json" where
  "json_get (JObj kv) key dflt =
     Inr (case map_of kv key of Some v \<Rightarrow> v | None \<Rightarrow> dflt)"
| "json_get v key dflt = Inl AttributeError"

text \<open>\<open>for x in v\<close>: a list gives its elements, a \<open>dict\<close> its keys, a \<open>str\<close> its
  characters; \<open>None\<close>, a \<open>bool\<close> and an \<open>int\<close> are not iterable (\<open>TypeError\<close>).\<close>

fun json_iter :: "json \<Rightarrow> exn + json list" where
  "json_iter (JList xs) = Inr xs"
| "json_iter (JObj kv) = Inr (map (\<lambda>(k, v). JStr k) kv)"
| "json_iter (JStr s) = Inr (map (\<lambda>c. JStr [c]) s)"
| "json_iter v = Inl TypeError"

text \<open>A value that is \<open>None\<close> or empty is false in a condition.\<close>

definition falsy :: "pystr option \<Rightarrow> bool" where
  "falsy v = (v = None \<or> v = Some [])"

subsection \<open>Regular expressions\<close>

text \<open>
  The part of \<open>re\<close> that the patterns of the sources use, compiled with
  \<open>re.IGNORECASE\<close>: literal characters, the classes \<open>\s\<close> and \<open>\d\<close>, a set of these in
  brackets, greedy repetition of one such item (\<open>*\<close>, \<open>+\<close>, \<open>{m,n}\<close>), sequence,
  alternatives, one capturing group and the word boundary \<open>\b\<close>.
\<close>

datatype atom = Chr nat | Space | Digit | Any_of "atom list"

datatype regex =
    Lit pystr
  | Rep atom nat "nat option"
  | Seq regex regex
  | Alt regex regex
  | Group regex
  | Word_boundary

fun atom_matches :: "python \<Rightarrow> atom \<Rightarrow> nat \<Rightarrow> bool" where
  "atom_matches P (Chr a) c = ignorecase_eq P a c"
| "atom_matches P Space c = isspace P c"
| "atom_matches P Digit c = (decimal P c \<noteq> None)"
| "atom_matches P (Any_of as) c = list_ex (\<lambda>a. atom_matches P a c) as"

text \<open>A position in the text is the character before it (if any) and the text from it
  on. \<open>\w\<close> is an alphanumeric character or the underscore; \<open>\b\<close> holds where exactly one
  of the two neighbours is a \<open>\w\<close>.\<close>

type_synonym position = "nat option \<times> pystr"

definition is_word :: "python \<Rightarrow> nat option \<Rightarrow> bool" where
  "is_word P c = (case c of None \<Rightarrow> False | Some x \<Rightarrow> isalnum P x \<or> x = 95)"

definition at_boundary :: "python \<Rightarrow> position \<Rightarrow> bool" where
  "at_boundary P pos =
     (is_word P (fst pos) \<noteq> is_word P (case snd pos of [] \<Rightarrow> None | c # cs \<Rightarrow> Some c))"

text \<open>The position after \<open>k\<close> more characters.\<close>

definition advance :: "nat \<Rightarrow> position \<Rightarrow> position" where
  "advance k pos =
     (if k = 0 then pos else (Some (snd pos ! (k - 1)), drop k (snd pos)))"

text \<open>A literal matches character by character, ignoring case.\<close>

fun lit_matches :: "python \<Rightarrow> pystr \<Rightarrow> pystr \<Rightarrow> bool" where
  "lit_matches P [] text = True"
| "lit_matches P (a # as) [] = False"
| "lit_matches P (a # as) (c # cs) = (ignorecase_eq P a c \<and> lit_matches P as cs)"

text \<open>\<open>rmatch P r pos g\<close>: every way in which \<open>r\<close> matches at \<open>pos\<close>, in the order in which
  the backtracking matcher tries them, each with the position after the match and the
  text of the group (\<open>g\<close> before the match). A greedy repetition tries the longest run
  first.\<close>

fun rmatch ::
  "python \<Rightarrow> regex \<Rightarrow> position \<Rightarrow> pystr option \<Rightarrow> (position \<times> pystr option) list" where
  "rmatch P (Lit l) pos g =
     (if lit_matches P l (snd pos) then [(advance (length l) pos, g)] else [])"
| "rmatch P (Rep a lo hi) pos g =
     (let run = length (takeWhile (atom_matches P a) (snd pos));
          most = (case hi of None \<Rightarrow> run | Some h \<Rightarrow> min h run)
      in map (\<lambda>k. (advance k pos, g)) (rev [lo ..< Suc most]))"
| "rmatch P (Seq r1 r2) pos g =
     concat (map (\<lambda>(pos', g'). rmatch P r2 pos' g') (rmatch P r1 pos g))"
| "rmatch P (Alt r1 r2) pos g = rmatch P r1 pos g @ rmatch P r2 pos g"
| "rmatch P (Group r) pos g =
     map (\<lambda>(pos', g'). (pos', Some (take (length (snd pos) - length (snd pos')) (snd pos))))
       (rmatch P r pos g)"
| "rmatch P Word_boundary pos g = (if at_boundary P pos then [(pos, g)] else [])"

text \<open>\<open>re.findall(pattern, text, re.IGNORECASE)\<close> for a pattern with one group, as far
  as the code looks at it (\<open>if matches:\<close>, \<open>matches[0]\<close>): \<open>None\<close> when the list is empty,
  else its first element, the group of the leftmost match (the empty string when the
  group took no part in it). \<open>search_from\<close> tries the positions from left to right.\<close>

fun search_from :: "python \<Rightarrow> regex \<Rightarrow> nat option \<Rightarrow> pystr \<Rightarrow> pystr option" where
  "search_from P r prev [] =
     (case rmatch P r (prev, []) None of
        [] \<Rightarrow> None
      | (pos', g) # others \<Rightarrow> Some (case g of None \<Rightarrow> [] | Some t \<Rightarrow> t))"
| "search_from P r prev (c # cs) =
     (case rmatch P r (prev, c # cs) None of
        [] \<Rightarrow> search_from P r (Some c) cs
      | (pos', g) # others \<Rightarrow> Some (case g of None \<Rightarrow> [] | Some t \<Rightarrow> t))"

definition findall_first :: "python \<Rightarrow> regex \<Rightarrow> pystr \<Rightarrow> pystr option" where
  "findall_first P r text = search_from P r None text"

text \<open>\<open>s.isdigit()\<close>: not empty and every character a digit.\<close>

definition str_isdigit :: "python \<Rightarrow> pystr \<Rightarrow> bool" where
  "str_isdigit P s = (s \<noteq> [] \<and> list_all (isdigit P) s)"

section \<open>utils/crypto.py\<close>

text \<open>
  The module calls \<open>os.environ\<close>, \<open>hashlib\<close>, \<open>base64\<close>, the \<open>Fernet\<close> class of the
  \<open>cryptography\<close> package and the UTF-8 codec. None of them is code of the repository:
  they are the fields of a record, and every theorem holds for whatever these functions
  compute. \<open>'f\<close> is the type of a \<open>Fernet\<close> instance. A library call that can raise returns
  a sum, \<open>Inl\<close> the exception. \<open>print_failure e\<close> is the \<open>print\<close> of the handler of
  \<open>encrypt\<close>, which writes the message "encryption failed:" (in Chinese) and the text of
  the exception \<open>e\<close> to \<open>sys.stdout\<close>; it raises when the stream cannot take the message
  (\<open>UnicodeEncodeError\<close> on a stream whose encoding has no Chinese characters, \<open>OSError\<close>
  on a closed one).
\<close>

record environ =
  ENCRYPTION_KEY :: "pystr option"
  JWT_SECRET_KEY :: "pystr option"

record 'f cryptography =
  sha256_digest :: "bytes \<Rightarrow> bytes"
  urlsafe_b64encode :: "bytes \<Rightarrow> bytes"
  Fernet :: "bytes \<Rightarrow> exn + 'f"
  fernet_encrypt :: "'f \<Rightarrow> bytes \<Rightarrow> exn + bytes"
  fernet_decrypt :: "'f \<Rightarrow> bytes \<Rightarrow> exn + bytes"
  str_encode :: "pystr \<Rightarrow> exn + bytes"
  bytes_decode :: "bytes \<Rightarrow> exn + pystr"
  print_failure :: "exn \<Rightarrow> exn + unit"

text \<open>\<open>get_encryption_key\<close>: \<open>ENCRYPTION_KEY\<close> when it is set and not empty, else the
  base64 of the SHA-256 of \<open>JWT_SECRET_KEY\<close> (default \<open>huohuo_email_secret_key\<close>).\<close>

definition get_encryption_key :: "'f cryptography \<Rightarrow> environ \<Rightarrow> exn + bytes" where
  "get_encryption_key L env =
     (let key = ENCRYPTION_KEY env in
      if key = None \<or> key = Some [] then
        (let jwt_secret = (case JWT_SECRET_KEY env of
                             Some v \<Rightarrow> v
                           | None \<Rightarrow> str ''huohuo_email_secret_key'')
         in case str_encode L jwt_secret of
              Inl e \<Rightarrow> Inl e
            | Inr b \<Rightarrow> Inr (urlsafe_b64encode L (sha256_digest L b)))
      else str_encode L (the key))"

text \<open>\<open>get_fernet\<close>: the module-level \<open>_fernet\<close> is the state, \<open>None\<close> until the first
  successful construction. A constructor that raises leaves it \<open>None\<close>.\<close>

definition get_fernet ::
  "'f cryptography \<Rightarrow> environ \<Rightarrow> 'f option \<Rightarrow> (exn + 'f) \<times> 'f option" where
  "get_fernet L env fernet_global =
     (case fernet_global of
        Some f \<Rightarrow> (Inr f, fernet_global)
      | None \<Rightarrow>
          (case get_encryption_key L env of
             Inl e \<Rightarrow> (Inl e, None)
           | Inr key \<Rightarrow>
               (case Fernet L key of
                  Inl e \<Rightarrow> (Inl e, None)
                | Inr f \<Rightarrow> (Inr f, Some f))))"

text \<open>The body of the \<open>try\<close> of \<open>encrypt\<close>:
  \<open>f = get_fernet(); encrypted = f.encrypt(plaintext.encode()); return encrypted.decode()\<close>.\<close>

definition encrypt_try ::
  "'f cryptography \<Rightarrow> environ \<Rightarrow> 'f option \<Rightarrow> pystr \<Rightarrow> (exn + pystr) \<times> 'f option" where
  "encrypt_try L env fernet_global plaintext =
     (case get_fernet L env fernet_global of
        (Inl e, g) \<Rightarrow> (Inl e, g)
      | (Inr f, g) \<Rightarrow>
          (case str_encode L plaintext of
             Inl e \<Rightarrow> (Inl e, g)
           | Inr b \<Rightarrow>
               (case fernet_encrypt L f b of
                  Inl e \<Rightarrow> (Inl e, g)
                | Inr encrypted \<Rightarrow> (bytes_decode L encrypted, g))))"

text \<open>\<open>encrypt\<close>. The result is a sum: \<open>Inl\<close> is an exception that leaves the function.
  The handler \<open>except Exception as e\<close> prints the failure and then returns the plaintext;
  the \<open>print\<close> is inside no \<open>try\<close>, so an exception of it leaves \<open>encrypt\<close>.\<close>

definition encrypt ::
  "'f cryptography \<Rightarrow> environ \<Rightarrow> 'f option \<Rightarrow> pystr \<Rightarrow> (exn + pystr) \<times> 'f option" where
  "encrypt L env fernet_global plaintext =
     (if plaintext = [] then (Inr plaintext, fernet_global)
      else case encrypt_try L env fernet_global plaintext of
             (Inr c, g) \<Rightarrow> (Inr c, g)
           | (Inl e, g) \<Rightarrow>
               (case print_failure L e of
                  Inl e' \<Rightarrow> (Inl e', g)
                | Inr u \<Rightarrow> (Inr plaintext, g)))"

text \<open>The body of the \<open>try\<close> of \<open>decrypt\<close>:
  \<open>f = get_fernet(); decrypted = f.decrypt(ciphertext.encode()); return decrypted.decode()\<close>.\<close>

definition decrypt_try ::
  "'f cryptography \<Rightarrow> environ \<Rightarrow> 'f option \<Rightarrow> pystr \<Rightarrow> (exn + pystr) \<times> 'f option" where
  "decrypt_try L env fernet_global ciphertext =
     (case get_fernet L env fernet_global of
        (Inl e, g) \<Rightarrow> (Inl e, g)
      | (Inr f, g) \<Rightarrow>
          (case str_encode L ciphertext of
             Inl e \<Rightarrow> (Inl e, g)
           | Inr b \<Rightarrow>
               (case fernet_decrypt L f b of
                  Inl e \<Rightarrow> (Inl e, g)
                | Inr decrypted \<Rightarrow> (bytes_decode L decrypted, g))))"

text \<open>\<open>decrypt\<close>: its handler \<open>except Exception\<close> returns the ciphertext and does nothing
  else.\<close>

definition decrypt ::
  "'f cryptography \<Rightarrow> environ \<Rightarrow> 'f option \<Rightarrow> pystr \<Rightarrow> (exn + pystr) \<times> 'f option" where
  "decrypt L env fernet_global ciphertext =
     (if ciphertext = [] then (Inr ciphertext, fernet_global)
      else case decrypt_try L env fernet_global ciphertext of
             (Inr p, g) \<Rightarrow> (Inr p, g)
           | (Inl e, g) \<Rightarrow> (Inr ciphertext, g))"


text \<open>A string is recognizable ciphertext under the configured key when the cipher
  accepts it: the \<open>Fernet\<close> instance exists, the string encodes, and \<open>f.decrypt\<close> returns.\<close>

definition recognizable ::
  "'f cryptography \<Rightarrow> environ \<Rightarrow> 'f option \<Rightarrow> pystr \<Rightarrow> bool" where
  "recognizable L env fernet_global s =
     (case fst (get_fernet L env fernet_global) of
        Inl e \<Rightarrow> False
      | Inr f \<Rightarrow>
          (case str_encode L s of
             Inl e \<Rightarrow> False
           | Inr b \<Rightarrow> (case fernet_decrypt L f b of Inl e \<Rightarrow> False | Inr d \<Rightarrow> True)))"

text \<open>What the module relies on of the libraries: a \<open>Fernet\<close> instance decrypts the
  tokens it produced, a token is never empty, and the codec is UTF-8 (decoding undoes
  encoding and the other way round, the empty string encodes to no bytes).\<close>

definition fernet_contract :: "'f cryptography \<Rightarrow> bool" where
  "fernet_contract L =
     ((\<forall>f b t. fernet_encrypt L f b = Inr t \<longrightarrow> t \<noteq> [] \<and> fernet_decrypt L f t = Inr b) \<and>
      (\<forall>s b. str_encode L s = Inr b \<longrightarrow> bytes_decode L b = Inr s) \<and>
      (\<forall>b s. bytes_decode L b = Inr s \<longrightarrow> str_encode L s = Inr b) \<and>
      str_encode L [] = Inr [])"

text \<open>Three instances of the library interface on which the theorems are exercised.
  The first has a cipher that prefixes its input with the marker of a token, a codec
  restricted to ASCII and a standard output that takes every message. In the second the
  \<open>Fernet\<close> constructor rejects the key, as the real one does for a key that is not 32
  bytes of url-safe base64. The third is the second with a standard output in an ASCII
  encoding (\<open>PYTHONIOENCODING=ascii\<close>), on which the \<open>print\<close> of a message with Chinese
  characters raises \<open>UnicodeEncodeError\<close>. \<open>sample_environ\<close> sets neither variable;
  \<open>changeme_environ\<close> has \<open>ENCRYPTION_KEY=changeme\<close>, which is no Fernet key.\<close>

definition ascii_encode :: "pystr \<Rightarrow> exn + bytes" where
  "ascii_encode s = (if list_all (\<lambda>c. c < 128) s then Inr s else Inl UnicodeError)"

definition sample_lib :: "unit cryptography" where
  "sample_lib =
     \<lparr> sha256_digest = (\<lambda>b. b),
       urlsafe_b64encode = (\<lambda>b. b),
       Fernet = (\<lambda>k. Inr ()),
       fernet_encrypt = (\<lambda>f b. Inr (str ''gAAAAA'' @ b)),
       fernet_decrypt = (\<lambda>f t. if take 6 t = str ''gAAAAA'' then Inr (drop 6 t)
                                else Inl InvalidToken),
       str_encode = ascii_encode,
       bytes_decode = ascii_encode,
       print_failure = (\<lambda>e. Inr ()) \<rparr>"



definition sample_environ :: environ where
  "sample_environ = \<lparr> ENCRYPTION_KEY = None, JWT_SECRET_KEY = None \<rparr>"

section \<open>The environment: store, network, clock\<close>

text \<open>
  \<open>database/db.py\<close>, the \<open>requests\<close> package and the clock are outside the modelled
  sources. They form a world of some type \<open>'w\<close> that every call may read and change;
  its operations are the fields of a record, and the theorems hold for every world and
  every implementation of the operations. A call that can raise returns a sum, \<open>Inl\<close>
  the exception.
\<close>

text \<open>A row of the \<open>emails\<close> table, as \<open>get_email_by_id\<close> returns it (the columns the
  modelled code reads; \<open>id'\<close> is the column \<open>id\<close>).\<close>

record email_info =
  id' :: int
  user_id :: "int option"
  email :: pystr
  password :: "pystr option"
  refresh_token :: "pystr option"
  client_id :: "pystr option"
  last_check_time :: "pystr option"
  mail_type :: pystr

text \<open>A message as \<open>GraphAPIMailHandler.get_messages\<close> builds it from the reply, and
  as a row of \<open>mail_records\<close> is read. \<open>received_time\<close> is the text that the callers
  store: the \<open>strftime("%Y-%m-%d %H:%M:%S")\<close> of the parsed \<open>receivedDateTime\<close>, or the
  unparsed value.\<close>

record message =
  subject :: pystr
  sender :: pystr
  received_time :: "pystr option"
  content :: pystr
  has_attachments :: bool

text \<open>An entry of the \<open>new_mails\<close> list that is broadcast.\<close>

record new_mail = message +
  mail_id :: int
  mail_email_id :: int
  recipient_email :: pystr

text \<open>The query parameters of a message-list request.\<close>

record params =
  p_top :: int
  p_orderby :: pystr
  p_select :: pystr
  p_filter :: "pystr option"

text \<open>The body of a subscription-create request and what the code reads of the reply.\<close>

record payload =
  changeType :: pystr
  notificationUrl :: pystr
  resource :: pystr
  expirationDateTime :: pystr
  clientState :: pystr

record sub_response =
  status_code :: nat
  response_id :: "exn + json"
  retry_after :: "pystr option"

record subscription =
  subscription_id :: json
  expiration_time :: pystr

record 'w env =
  get_email_by_id :: "int \<Rightarrow> 'w \<Rightarrow> (exn + email_info option) \<times> 'w"
  get_all_emails :: "int option \<Rightarrow> 'w \<Rightarrow> (exn + email_info list) \<times> 'w"
  add_mail_record :: "int \<Rightarrow> message \<Rightarrow> pystr \<Rightarrow> 'w \<Rightarrow> (exn + bool \<times> int option) \<times> 'w"
  update_check_time :: "int \<Rightarrow> 'w \<Rightarrow> (exn + unit) \<times> 'w"
  get_mail_count_by_email_id :: "int \<Rightarrow> 'w \<Rightarrow> (exn + int) \<times> 'w"
  get_mail_records :: "int \<Rightarrow> nat option \<Rightarrow> 'w \<Rightarrow> (exn + message list) \<times> 'w"
  update_email_token :: "int \<Rightarrow> json \<Rightarrow> 'w \<Rightarrow> (exn + unit) \<times> 'w"
  get_subscription_by_email_id :: "int \<Rightarrow> 'w \<Rightarrow> (exn + subscription option) \<times> 'w"
  add_subscription :: "int \<Rightarrow> subscription \<Rightarrow> pystr \<Rightarrow> 'w \<Rightarrow> (exn + unit) \<times> 'w"
  get_all_outlook_emails :: "'w \<Rightarrow> (exn + email_info list) \<times> 'w"
  add_email ::
    "int \<Rightarrow> pystr \<Rightarrow> pystr \<Rightarrow> pystr \<Rightarrow> pystr \<Rightarrow> pystr \<Rightarrow> 'w \<Rightarrow> (exn + bool) \<times> 'w"
  post_token :: "pystr \<Rightarrow> pystr \<Rightarrow> 'w \<Rightarrow> (exn + json) \<times> 'w"
  get_folder_messages :: "json \<Rightarrow> pystr \<Rightarrow> params \<Rightarrow> 'w \<Rightarrow> (exn + nat \<times> message list) \<times> 'w"
  post_subscription :: "json \<Rightarrow> payload \<Rightarrow> 'w \<Rightarrow> (exn + sub_response) \<times> 'w"
  expiration_after :: "nat \<Rightarrow> 'w \<Rightarrow> pystr \<times> pystr"
  sleep :: "nat \<Rightarrow> 'w \<Rightarrow> 'w"
  now :: "'w \<Rightarrow> int"
  strptime_iso :: "pystr \<Rightarrow> exn + pystr"

text \<open>
  \<^item> \<open>post_token rt cid\<close>: \<open>requests.post(TOKEN_URL, data=...)\<close> followed by
    \<open>response.json()\<close>; \<open>Inl\<close> when either raises.
  \<^item> \<open>get_folder_messages token folder params\<close>: the \<open>requests.get\<close> of
    \<open>get_messages\<close>. The reply is the status code and, for status 200, the list of
    messages that the loop of \<open>get_messages\<close> builds from \<open>data["value"]\<close>; \<open>Inl\<close> when
    the request, the decoding of the reply or that loop raises.
  \<^item> \<open>post_subscription token payload\<close>: the \<open>requests.post\<close> of \<open>create_subscription\<close>;
    the reply carries the status code, \<open>response.json().get('id')\<close> (which may raise) and
    the \<open>Retry-After\<close> header.
  \<^item> \<open>expiration_after m\<close>: \<open>datetime.now(timezone.utc) + timedelta(minutes=m)\<close>, in
    the two formats the code prints (for the request and for the store).
  \<^item> \<open>strptime_iso s\<close>: \<open>datetime.strptime(s, "%Y-%m-%d %H:%M:%S")\<close> printed with
    \<open>strftime("%Y-%m-%dT%H:%M:%SZ")\<close>; \<open>Inl\<close> when \<open>s\<close> is not in that format.
  \<^item> \<open>sleep n\<close>: \<open>time.sleep(n)\<close>; \<open>now\<close>: \<open>datetime.now()\<close>, in microseconds.
  \<^item> \<open>get_all_emails None\<close> is \<open>db.get_all_emails()\<close> and \<open>get_all_emails (Some uid)\<close> is
    \<open>db.get_all_emails(uid)\<close>; \<open>get_mail_records i None\<close> is \<open>db.get_mail_records(i)\<close> and
    \<open>get_mail_records i (Some n)\<close> is \<open>db.get_mail_records(i, limit=n)\<close>.
\<close>

text \<open>What the code does to its environment is recorded, in order: the requests it
  sends, the store's writes it calls (with the result of \<open>add_mail_record\<close>), the sleeps
  and the broadcasts.\<close>

datatype event =
    Token_request pystr pystr
  | Messages_request json pystr params
  | Subscription_request json payload
  | Sleep nat
  | Add_mail_record int message pystr "exn + bool \<times> int option"
  | Update_check_time int
  | Update_email_token int json
  | Add_subscription int subscription pystr
  | Add_email int pystr pystr pystr pystr pystr
  | Broadcast_to_user int "new_mail list"

text \<open>The state that the modelled code runs in: the world, the record of events, and
  the two attributes of \<open>GraphWebhookHandler\<close> (\<open>_processing_emails\<close>, and \<open>ws_handler\<close>:
  \<open>None\<close> when not set, else whether the object has \<open>broadcast_to_user\<close>).\<close>

record 'w sys =
  world :: 'w
  trace :: "event list"
  processing_emails :: "int set"
  ws_handler :: "bool option"

text \<open>One call of an operation of the environment: the world moves on.\<close>

definition call :: "('w \<Rightarrow> 'a \<times> 'w) \<Rightarrow> 'w sys \<Rightarrow> 'a \<times> 'w sys" where
  "call f s = (case f (world s) of (r, w) \<Rightarrow> (r, s\<lparr>world := w\<rparr>))"

definition emit :: "event \<Rightarrow> 'w sys \<Rightarrow> 'w sys" where
  "emit e s = s\<lparr>trace := trace s @ [e]\<rparr>"

section \<open>utils/email/graph_api.py\<close>

text \<open>\<open>GraphAPIMailHandler.get_new_access_token\<close>. A reply that is not a \<open>dict\<close> ends
  in \<open>None\<close> whatever it is: \<open>"error" in result\<close> raises \<open>TypeError\<close> for \<open>None\<close>, a \<open>bool\<close>
  or an \<open>int\<close>, and for a \<open>str\<close> or a \<open>list\<close> either the test holds or \<open>result.get\<close>
  raises \<open>AttributeError\<close>; the handler returns \<open>None\<close> for each.\<close>

definition get_new_access_token ::
  "'w env \<Rightarrow> pystr \<Rightarrow> pystr \<Rightarrow> 'w sys \<Rightarrow> json option \<times> 'w sys" where
  "get_new_access_token E refresh_tok client s =
     (case call (post_token E refresh_tok client) (emit (Token_request refresh_tok client) s) of
        (Inl e, s') \<Rightarrow> (None, s')
      | (Inr result, s') \<Rightarrow>
          (case result of
             JObj kv \<Rightarrow>
               if map_of kv (str ''error'') \<noteq> None then (None, s')
               else (case map_of kv (str ''access_token'') of
                       Some access_token \<Rightarrow>
                         if truthy access_token then (Some access_token, s') else (None, s')
                     | None \<Rightarrow> (None, s'))
           | _ \<Rightarrow> (None, s')))"

text \<open>The text of \<open>since\<close> in the filter of \<open>get_messages\<close>, for a \<open>since\<close> that is a
  \<open>str\<close> (the callers pass the column \<open>last_check_time\<close>): the \<open>strptime\<close> format when
  it parses, else blanks replaced by \<open>T\<close> and a final \<open>Z\<close> added when missing.\<close>

definition since_str :: "'w env \<Rightarrow> pystr \<Rightarrow> pystr" where
  "since_str E since =
     (case strptime_iso E since of
        Inr formatted \<Rightarrow> formatted
      | Inl e \<Rightarrow>
          (let t = replace since (str '' '') (str ''T'')
           in if endswith t (str ''Z'') then t else t @ str ''Z''))"

text \<open>The query parameters that \<open>get_messages\<close> sends: \<open>$top\<close>, \<open>$orderby\<close> and
  \<open>$select\<close> always, \<open>$filter\<close> when there is one.\<close>

definition message_params :: "int \<Rightarrow> pystr option \<Rightarrow> params" where
  "message_params limit flt =
     \<lparr> p_top = limit,
       p_orderby = str ''receivedDateTime desc'',
       p_select = str ''id,subject,from,receivedDateTime,body,hasAttachments,bodyPreview'',
       p_filter = flt \<rparr>"

text \<open>The \<open>$filter\<close> of \<open>get_messages\<close>: added under \<open>if since:\<close> only, that is for a
  \<open>since\<close> that is neither \<open>None\<close> nor empty.\<close>

definition since_filter :: "'w env \<Rightarrow> pystr option \<Rightarrow> pystr option" where
  "since_filter E since =
     (if falsy since then None
      else Some (str ''receivedDateTime ge '' @ since_str E (the since)))"

text \<open>\<open>GraphAPIMailHandler.get_messages(folder, limit, since)\<close>. A status other than 200 and any exception give the empty
  list (the attribute \<open>error\<close> that is set then is read nowhere in the sources).\<close>

definition get_messages ::
  "'w env \<Rightarrow> json \<Rightarrow> pystr \<Rightarrow> int \<Rightarrow> pystr option \<Rightarrow> 'w sys \<Rightarrow> message list \<times> 'w sys" where
  "get_messages E access_token folder limit since s =
     (let ps = message_params limit (since_filter E since)
      in case call (get_folder_messages E access_token folder ps)
                (emit (Messages_request access_token folder ps) s) of
           (Inr (status, messages), s') \<Rightarrow> (if status = 200 then messages else [], s')
         | (Inl e, s') \<Rightarrow> ([], s'))"

text \<open>\<open>GraphAPIMailHandler.fetch_emails\<close>: \<open>get_messages\<close> with limit 100 and the
  \<open>last_check_time\<close> passed as \<open>since\<close>; the records it returns have the fields of the
  messages. The progress callbacks of the callers in the sources only write to the log
  and are not modelled.\<close>

definition fetch_emails ::
  "'w env \<Rightarrow> json \<Rightarrow> pystr \<Rightarrow> pystr option \<Rightarrow> 'w sys \<Rightarrow> message list \<times> 'w sys" where
  "fetch_emails E access_token folder last_check s =
     get_messages E access_token folder 100 last_check s"

text \<open>The first-sync test at the head of \<open>check_mail\<close>: the count of stored mails is
  0, or, when the count cannot be read, the list of stored mails (limit 1) is empty;
  when neither can be read it is not a first sync.\<close>

definition is_first_sync :: "'w env \<Rightarrow> int \<Rightarrow> 'w sys \<Rightarrow> bool \<times> 'w sys" where
  "is_first_sync E email_id s =
     (case call (get_mail_count_by_email_id E email_id) s of
        (Inr existing_mail_count, s') \<Rightarrow> (existing_mail_count = 0, s')
      | (Inl e, s') \<Rightarrow>
          (case call (get_mail_records E email_id (Some 1)) s' of
             (Inr mail_records, s'') \<Rightarrow> (mail_records = [], s'')
           | (Inl e', s'') \<Rightarrow> (False, s'')))"

text \<open>The saving loop of \<open>check_mail\<close>: every record is handed to \<open>add_mail_record\<close>
  with its folder, an exception is logged and the loop goes on; \<open>saved\<close> counts the
  calls that returned success.\<close>

fun save_mail_records ::
  "'w env \<Rightarrow> int \<Rightarrow> (message \<times> pystr) list \<Rightarrow> nat \<Rightarrow> 'w sys \<Rightarrow> nat \<times> 'w sys" where
  "save_mail_records E email_id [] saved_count s = (saved_count, s)"
| "save_mail_records E email_id ((record, folder) # rest) saved_count s =
     (case call (add_mail_record E email_id record folder) s of
        (r, s') \<Rightarrow>
          save_mail_records E email_id rest
            (case r of
               Inr (ok, mid) \<Rightarrow> if ok then Suc saved_count else saved_count
             | Inl e \<Rightarrow> saved_count)
            (emit (Add_mail_record email_id record folder r) s'))"

record check_result =
  success :: bool
  total :: nat
  saved :: nat

definition check_failed :: check_result where
  "check_failed = \<lparr> success = False, total = 0, saved = 0 \<rparr>"

text \<open>\<open>GraphAPIMailHandler.check_mail(email_info, db)\<close>. The result is the \<open>success\<close>,
  \<open>total\<close> and \<open>saved\<close> of the dictionary returned (a failure has no counts; they are 0
  here). The calls of \<open>update_email_token\<close> and \<open>update_check_time\<close> are each in a
  \<open>try\<close> of their own, whose handler logs.\<close>

definition check_mail :: "'w env \<Rightarrow> email_info \<Rightarrow> 'w sys \<Rightarrow> check_result \<times> 'w sys" where
  "check_mail E email_info s =
     (let email_id = id' email_info in
      case is_first_sync E email_id s of
        (first_sync, s1) \<Rightarrow>
          (let last_check = (if first_sync then None else last_check_time email_info) in
           if falsy (refresh_token email_info) \<or> falsy (client_id email_info)
           then (check_failed, s1)
           else
             case get_new_access_token E (the (refresh_token email_info))
                    (the (client_id email_info)) s1 of
               (None, s2) \<Rightarrow> (check_failed, s2)
             | (Some access_token, s2) \<Rightarrow>
                 (case call (update_email_token E email_id access_token)
                         (emit (Update_email_token email_id access_token) s2) of
                    (u, s3) \<Rightarrow>
                      (case fetch_emails E access_token (str ''inbox'') last_check s3 of
                         (inbox, s4) \<Rightarrow>
                           (case fetch_emails E access_token (str ''junkemail'') last_check s4 of
                              (junk, s5) \<Rightarrow>
                                (let all_mail_records =
                                       map (\<lambda>r. (r, str ''INBOX'')) inbox @
                                       map (\<lambda>r. (r, str ''JUNK'')) junk
                                 in if all_mail_records = [] then
                                      (case call (update_check_time E email_id)
                                              (emit (Update_check_time email_id) s5) of
                                         (u', s6) \<Rightarrow>
                                           (\<lparr> success = True, total = 0, saved = 0 \<rparr>, s6))
                                    else
                                      (case save_mail_records E email_id all_mail_records 0 s5 of
                                         (saved_count, s6) \<Rightarrow>
                                           (case call (update_check_time E email_id)
                                                   (emit (Update_check_time email_id) s6) of
                                              (u', s7) \<Rightarrow>
                                                (\<lparr> success = True,
                                                   total = length all_mail_records,
                                                   saved = saved_count \<rparr>, s7)))))))))"

text \<open>Reading a record of events: the message-list requests, each with its folder and
  its query parameters, in order.\<close>

fun message_requests :: "event list \<Rightarrow> (pystr \<times> params) list" where
  "message_requests [] = []"
| "message_requests (Messages_request token folder ps # evs) =
     (folder, ps) # message_requests evs"
| "message_requests (e # evs) = message_requests evs"

section \<open>utils/email/graph_webhook.py: GraphWebhookHandler\<close>

definition handle_validation :: "pystr \<Rightarrow> pystr" where
  "handle_validation validation_token = validation_token"

definition new_mail_entry :: "email_info \<Rightarrow> message \<Rightarrow> int \<Rightarrow> new_mail" where
  "new_mail_entry email_info msg mid =
     \<lparr> subject = subject msg, sender = sender msg, received_time = received_time msg,
       content = content msg, has_attachments = has_attachments msg,
       mail_id = mid, mail_email_id = id' email_info, recipient_email = email email_info \<rparr>"

text \<open>The saving loop of \<open>_fetch_new_mail\<close>: every message goes to \<open>add_mail_record\<close>
  with folder \<open>INBOX\<close>; a message joins \<open>new_mails\<close> under \<open>if success and mail_id\<close>; an
  exception is logged and the loop goes on. \<open>saved_count\<close> of the source is the length
  of \<open>new_mails\<close>.\<close>

fun store_messages ::
  "'w env \<Rightarrow> email_info \<Rightarrow> message list \<Rightarrow> new_mail list \<Rightarrow> 'w sys \<Rightarrow> new_mail list \<times> 'w sys" where
  "store_messages E email_info [] new_mails s = (new_mails, s)"
| "store_messages E email_info (msg # msgs) new_mails s =
     (case call (add_mail_record E (id' email_info) msg (str ''INBOX'')) s of
        (r, s') \<Rightarrow>
          store_messages E email_info msgs
            (case r of
               Inr (ok, Some mid) \<Rightarrow>
                 if ok \<and> mid \<noteq> 0 then new_mails @ [new_mail_entry email_info msg mid]
                 else new_mails
             | Inr (ok, None) \<Rightarrow> new_mails
             | Inl e \<Rightarrow> new_mails)
            (emit (Add_mail_record (id' email_info) msg (str ''INBOX'') r) s'))"



text \<open>\<open>_broadcast_new_mails\<close>: under \<open>if user_id and hasattr(self.ws_handler,
  'broadcast_to_user')\<close>; an exception of the broadcast is logged.\<close>

definition broadcast_new_mails :: "int option \<Rightarrow> new_mail list \<Rightarrow> 'w sys \<Rightarrow> 'w sys" where
  "broadcast_new_mails uid new_mails s =
     (case uid of
        Some u \<Rightarrow>
          if u \<noteq> 0 \<and> ws_handler s = Some True then emit (Broadcast_to_user u new_mails) s
          else s
      | None \<Rightarrow> s)"

text \<open>\<open>_fetch_new_mail(email_info)\<close>. The whole body is in a \<open>try\<close> whose handler logs:
  an exception of \<open>update_check_time\<close> ends the job before the broadcast.\<close>

definition fetch_new_mail :: "'w env \<Rightarrow> email_info \<Rightarrow> 'w sys \<Rightarrow> 'w sys" where
  "fetch_new_mail E email_info s =
     (if falsy (refresh_token email_info) \<or> falsy (client_id email_info) then s
      else
        case get_new_access_token E (the (refresh_token email_info))
               (the (client_id email_info)) s of
          (None, s1) \<Rightarrow> s1
        | (Some access_token, s1) \<Rightarrow>
            (case get_messages E access_token (str ''inbox'') 5 None s1 of
               (messages, s2) \<Rightarrow>
                 if messages = [] then s2
                 else
                   (case store_messages E email_info messages [] s2 of
                      (new_mails, s3) \<Rightarrow>
                        (case call (update_check_time E (id' email_info))
                                (emit (Update_check_time (id' email_info)) s3) of
                           (Inl e, s4) \<Rightarrow> s4
                         | (Inr u, s4) \<Rightarrow>
                             if new_mails \<noteq> [] \<and> ws_handler s4 \<noteq> None
                             then broadcast_new_mails (user_id email_info) new_mails s4
                             else s4))))"

text \<open>The mailbox id that \<open>_process_single_notification\<close> reads from a \<open>clientState\<close>
  that is a \<open>str\<close>: the string must start with \<open>email_\<close>, and \<open>int\<close> is applied to it with
  every occurrence of \<open>email_\<close> removed. \<open>None\<close>: the notification is dropped.\<close>

definition client_state_id :: "python \<Rightarrow> pystr \<Rightarrow> int option" where
  "client_state_id P client_state =
     (if \<not> startswith client_state (str ''email_'') then None
      else py_int P (replace client_state (str ''email_'') []))"

text \<open>The test-and-set of \<open>_processing_emails\<close> under \<open>_processing_lock\<close>: \<open>None\<close> when
  the id is in the set, else the set with the id added.\<close>

definition mark_processing :: "int \<Rightarrow> int set \<Rightarrow> int set option" where
  "mark_processing email_id processing =
     (if email_id \<in> processing then None else Some (insert email_id processing))"

text \<open>\<open>_process_single_notification(notification)\<close>. \<open>Inl\<close> is an exception that leaves
  the function (the caller logs it): a notification that is not a \<open>dict\<close>, a
  \<open>clientState\<close> that is not a \<open>str\<close>, a failing \<open>get_email_by_id\<close>.\<close>

definition process_single_notification ::
  "python \<Rightarrow> 'w env \<Rightarrow> json \<Rightarrow> 'w sys \<Rightarrow> (exn + unit) \<times> 'w sys" where
  "process_single_notification P E notification s =
     (case json_get notification (str ''changeType'') JNull of
        Inl e \<Rightarrow> (Inl e, s)
      | Inr change_type \<Rightarrow>
          (case json_get notification (str ''clientState'') (JStr []) of
             Inl e \<Rightarrow> (Inl e, s)
           | Inr (JStr client_state) \<Rightarrow>
               (case client_state_id P client_state of
                  None \<Rightarrow> (Inr (), s)
                | Some email_id \<Rightarrow>
                    (case call (get_email_by_id E email_id) s of
                       (Inl e, s1) \<Rightarrow> (Inl e, s1)
                     | (Inr None, s1) \<Rightarrow> (Inr (), s1)
                     | (Inr (Some email_info), s1) \<Rightarrow>
                         if change_type = JStr (str ''created'') then
                           (case mark_processing email_id (processing_emails s1) of
                              None \<Rightarrow> (Inr (), s1)
                            | Some marked \<Rightarrow>
                                (let s2 = fetch_new_mail E email_info
                                            (s1\<lparr>processing_emails := marked\<rparr>)
                                 in (Inr (),
                                     s2\<lparr>processing_emails := processing_emails s2 - {email_id}\<rparr>)))
                         else (Inr (), s1)))
           | Inr other \<Rightarrow> (Inl AttributeError, s)))"

text \<open>\<open>handle_notification(notification_data)\<close>: each notification in a \<open>try\<close> of its
  own; the result is \<open>False\<close> when \<open>notification_data\<close> has no \<open>get\<close> or its \<open>value\<close>
  cannot be iterated.\<close>

fun process_notifications :: "python \<Rightarrow> 'w env \<Rightarrow> json list \<Rightarrow> 'w sys \<Rightarrow> 'w sys" where
  "process_notifications P E [] s = s"
| "process_notifications P E (notification # rest) s =
     process_notifications P E rest (snd (process_single_notification P E notification s))"

definition handle_notification :: "python \<Rightarrow> 'w env \<Rightarrow> json \<Rightarrow> 'w sys \<Rightarrow> bool \<times> 'w sys" where
  "handle_notification P E notification_data s =
     (case json_get notification_data (str ''value'') (JList []) of
        Inl e \<Rightarrow> (False, s)
      | Inr v \<Rightarrow>
          (case json_iter v of
             Inl e \<Rightarrow> (False, s)
           | Inr notifications \<Rightarrow> (True, process_notifications P E notifications s)))"

section \<open>utils/email/graph_webhook.py: GraphWebhookManager\<close>

text \<open>\<open>str(n)\<close> of an \<open>int\<close>, as the f-string \<open>f"email_{email_id}"\<close> prints it.\<close>

function decimal_digits :: "nat \<Rightarrow> pystr" where
  "decimal_digits n =
     (if n < 10 then [48 + n] else decimal_digits (n div 10) @ [48 + n mod 10])"
  by pat_completeness auto
termination
  by (relation "measure (\<lambda>n. n)") auto

definition str_of_int :: "int \<Rightarrow> pystr" where
  "str_of_int i = (if i < 0 then 45 # decimal_digits (nat (- i)) else decimal_digits (nat i))"

definition MAX_EXPIRATION_MINUTES :: nat where
  "MAX_EXPIRATION_MINUTES = 4230"

text \<open>\<open>create_subscription(email_info)\<close>. The lookup of an existing subscription is
  outside the \<open>try\<close>: its exception leaves the function (\<open>Inl\<close>). Everything after it is
  inside: an exception gives \<open>None\<close>. On status 429 the code reads the \<open>Retry-After\<close>
  header (default \<open>'60'\<close>), writes it to the log and returns \<open>None\<close>, as for any other
  failure; the value is not returned and nothing waits for it.\<close>

definition create_subscription ::
  "'w env \<Rightarrow> pystr \<Rightarrow> email_info \<Rightarrow> 'w sys \<Rightarrow> (exn + subscription option) \<times> 'w sys" where
  "create_subscription E webhook_url email_info s =
     (let email_id = id' email_info in
      if falsy (refresh_token email_info) \<or> falsy (client_id email_info) then (Inr None, s)
      else
        case call (get_subscription_by_email_id E email_id) s of
          (Inl e, s1) \<Rightarrow> (Inl e, s1)
        | (Inr (Some existing), s1) \<Rightarrow> (Inr (Some existing), s1)
        | (Inr None, s1) \<Rightarrow>
            (case get_new_access_token E (the (refresh_token email_info))
                    (the (client_id email_info)) s1 of
               (None, s2) \<Rightarrow> (Inr None, s2)
             | (Some access_token, s2) \<Rightarrow>
                 (case expiration_after E MAX_EXPIRATION_MINUTES (world s2) of
                    (expiration_str, expiration_db) \<Rightarrow>
                      (let request_body =
                             \<lparr> changeType = str ''created'',
                               notificationUrl = webhook_url,
                               resource = str ''me/mailFolders('Inbox')/messages'',
                               expirationDateTime = expiration_str,
                               clientState = str ''email_'' @ str_of_int email_id \<rparr>
                       in case call (post_subscription E access_token request_body)
                                 (emit (Subscription_request access_token request_body) s2) of
                            (Inl e, s3) \<Rightarrow> (Inr None, s3)
                          | (Inr response, s3) \<Rightarrow>
                              if status_code response = 201 then
                                (case response_id response of
                                   Inl e \<Rightarrow> (Inr None, s3)
                                 | Inr sub_id \<Rightarrow>
                                     (let sub = \<lparr> subscription_id = sub_id,
                                                  expiration_time = expiration_db \<rparr>
                                      in case call (add_subscription E email_id sub
                                                      (resource request_body))
                                                (emit (Add_subscription email_id sub
                                                         (resource request_body)) s3) of
                                           (Inl e, s4) \<Rightarrow> (Inr None, s4)
                                         | (Inr u, s4) \<Rightarrow> (Inr (Some sub), s4)))
                              else if status_code response = 429 then
                                (let retry_after_text =
                                       (case retry_after response of
                                          Some v \<Rightarrow> v
                                        | None \<Rightarrow> str ''60'')
                                 in (Inr None, s3))
                              else (Inr None, s3)))))"

text \<open>\<open>time.sleep(n)\<close>.\<close>

definition do_sleep :: "'w env \<Rightarrow> nat \<Rightarrow> 'w sys \<Rightarrow> 'w sys" where
  "do_sleep E n s = emit (Sleep n) (s\<lparr>world := sleep E n (world s)\<rparr>)"

record counters =
  created :: nat
  failed :: nat
  skipped :: nat

text \<open>The loop of \<open>create_subscriptions_for_all_outlook_emails\<close> over
  \<open>enumerate(emails)\<close> from index \<open>i\<close> on. A mailbox with a subscription is skipped
  without a sleep. After every other mailbox, whatever \<open>create_subscription\<close> returned,
  the loop sleeps 2 seconds, and \<open>delay_between_batches\<close> seconds more when \<open>i + 1\<close> is a
  multiple of \<open>batch_size\<close> and mailboxes are left. \<open>batch_size\<close> and the delay are
  natural numbers here; \<open>batch_size = 0\<close> is the \<open>ZeroDivisionError\<close> of \<open>%\<close>.\<close>

fun create_loop ::
  "'w env \<Rightarrow> pystr \<Rightarrow> nat \<Rightarrow> nat \<Rightarrow> nat \<Rightarrow> nat \<Rightarrow> email_info list \<Rightarrow> counters \<Rightarrow> 'w sys \<Rightarrow>
   (exn + counters) \<times> 'w sys" where
  "create_loop E url batch_size delay total_count i [] c s = (Inr c, s)"
| "create_loop E url batch_size delay total_count i (email_info # rest) c s =
     (case call (get_subscription_by_email_id E (id' email_info)) s of
        (Inl e, s1) \<Rightarrow> (Inl e, s1)
      | (Inr (Some existing), s1) \<Rightarrow>
          create_loop E url batch_size delay total_count (i + 1) rest
            (c\<lparr>skipped := skipped c + 1\<rparr>) s1
      | (Inr None, s1) \<Rightarrow>
          (case create_subscription E url email_info s1 of
             (Inl e, s2) \<Rightarrow> (Inl e, s2)
           | (Inr result, s2) \<Rightarrow>
               (let c' = (if result \<noteq> None then c\<lparr>created := created c + 1\<rparr>
                          else c\<lparr>failed := failed c + 1\<rparr>);
                    s3 = do_sleep E 2 s2
                in if batch_size = 0 then (Inl ZeroDivisionError, s3)
                   else if (i + 1) mod batch_size = 0 \<and> i + 1 < total_count
                   then create_loop E url batch_size delay total_count (i + 1) rest c'
                          (do_sleep E delay s3)
                   else create_loop E url batch_size delay total_count (i + 1) rest c' s3)))"

text \<open>\<open>create_subscriptions_for_all_outlook_emails(batch_size, delay_between_batches)\<close>:
  the counters, or \<open>None\<close> when an exception ended the batch.\<close>

definition create_subscriptions_for_all_outlook_emails ::
  "'w env \<Rightarrow> pystr \<Rightarrow> nat \<Rightarrow> nat \<Rightarrow> 'w sys \<Rightarrow> counters option \<times> 'w sys" where
  "create_subscriptions_for_all_outlook_emails E url batch_size delay s =
     (case call (get_all_outlook_emails E) s of
        (Inl e, s1) \<Rightarrow> (None, s1)
      | (Inr emails, s1) \<Rightarrow>
          (case create_loop E url batch_size delay (length emails) 0 emails
                  \<lparr> created = 0, failed = 0, skipped = 0 \<rparr> s1 of
             (Inl e, s2) \<Rightarrow> (None, s2)
           | (Inr c, s2) \<Rightarrow> (Some c, s2)))"

section \<open>The in-flight sets of the two entry points\<close>












section \<open>app.py: the webhook endpoint\<close>

datatype http_method = GET | HEAD | POST | PUT | DELETE | OPTIONS | PATCH

text \<open>What the endpoint reads of a request: the method, the query parameters
  (\<open>request.args\<close>, in the order of the URL) and \<open>request.json\<close>, which raises when the
  body is not JSON. What it answers: status, \<open>Content-Type\<close> and body.\<close>

record request =
  req_method :: http_method
  args :: "(pystr \<times> pystr) list"
  json_body :: "exn + json"

record response =
  status :: nat
  content_type :: pystr
  body :: pystr

text \<open>\<open>return '', 202\<close>: an empty body with Flask's default content type.\<close>

definition accepted_202 :: response where
  "accepted_202 = \<lparr> status = 202, content_type = str ''text/html; charset=utf-8'', body = [] \<rparr>"

text \<open>\<open>graph_webhook_endpoint\<close>. \<open>initialised\<close> says whether the global
  \<open>graph_webhook_handler\<close> is set. The second component of the result is the
  \<open>notification_data\<close> of the thread that is started to run \<open>handle_notification\<close>, if one
  is started.\<close>

definition graph_webhook_endpoint :: "bool \<Rightarrow> request \<Rightarrow> response \<times> json option" where
  "graph_webhook_endpoint initialised req =
     (let validation_token = map_of (args req) (str ''validationToken'') in
      if \<not> falsy validation_token then
        (\<lparr> status = 200, content_type = str ''text/plain'', body = the validation_token \<rparr>, None)
      else if initialised then
        (case json_body req of
           Inr notification_data \<Rightarrow> (accepted_202, Some notification_data)
         | Inl e \<Rightarrow> (accepted_202, None))
      else (accepted_202, None))"

text \<open>\<open>serve_frontend(path)\<close>, the view of the catch-all rules \<open>/\<close> and
  \<open>/<path:path>\<close>. What it reads of the directory \<open>frontend/dist\<close> is a parameter:
  \<open>isfile name\<close> is \<open>os.path.isfile(os.path.join(frontend_dir, name))\<close>, and
  \<open>send_from_directory name\<close> is the answer of Flask's
  \<open>send_from_directory(frontend_dir, name)\<close>: the file, with the type guessed from its
  name, or 404 when there is none.\<close>

record frontend_dist =
  isfile :: "pystr \<Rightarrow> bool"
  send_from_directory :: "pystr \<Rightarrow> response"

definition serve_frontend :: "frontend_dist \<Rightarrow> pystr \<Rightarrow> response" where
  "serve_frontend F path =
     (if path = [] \<or> path = str ''/'' then send_from_directory F (str ''index.html'')
      else if isfile F path then send_from_directory F path
      else send_from_directory F (str ''index.html''))"

text \<open>How Flask routes a request for the path \<open>/api/graph/webhook\<close>. Three rules of
  \<open>app.py\<close> match that path: \<open>@app.route('/api/graph/webhook', methods=['POST'])\<close>, the
  rule \<open>/<path:path>\<close> of \<open>handle_options\<close> (\<open>OPTIONS\<close>), and the rule \<open>/<path:path>\<close> of
  \<open>serve_frontend\<close> (no \<open>methods\<close>: \<open>GET\<close>, and \<open>HEAD\<close> with it). A rule whose methods do
  not include the method of the request is passed over, and the answer is 405 only when
  no rule is left. So \<open>POST\<close> runs the endpoint, \<open>GET\<close> and \<open>HEAD\<close> run \<open>serve_frontend\<close>
  with the path \<open>api/graph/webhook\<close> (for \<open>HEAD\<close> its answer is sent without the body),
  \<open>OPTIONS\<close> is answered without the endpoint, and every other method gets 405.\<close>

datatype 'a routed = View 'a | Frontend response | Options_response | Method_not_allowed

definition route_graph_webhook ::
  "frontend_dist \<Rightarrow> bool \<Rightarrow> request \<Rightarrow> (response \<times> json option) routed" where
  "route_graph_webhook F initialised req =
     (if req_method req = POST then View (graph_webhook_endpoint initialised req)
      else if req_method req = GET \<or> req_method req = HEAD
      then Frontend (serve_frontend F (str ''api/graph/webhook''))
      else if req_method req = OPTIONS then Options_response
      else Method_not_allowed)"

text \<open>A build of the frontend as \<open>vite build\<close> leaves it: \<open>index.html\<close> and nothing under
  \<open>api/\<close>.\<close>

definition sample_dist :: frontend_dist where
  "sample_dist =
     \<lparr> isfile = (\<lambda>name. name = str ''index.html''),
       send_from_directory = (\<lambda>name.
          if name = str ''index.html''
          then \<lparr> status = 200, content_type = str ''text/html; charset=utf-8'',
                 body = str ''<!doctype html><div id=app></div>'' \<rparr>
          else \<lparr> status = 404, content_type = str ''text/html; charset=utf-8'',
                 body = str ''Not Found'' \<rparr>) \<rparr>"

section \<open>app.py: export and import of mailboxes\<close>

text \<open>\<open>email.get(key, '')\<close> printed in an f-string: the value, \<open>None\<close> for a \<open>NULL\<close>
  column (the key is always there in a row).\<close>

definition printed :: "pystr option \<Rightarrow> pystr" where
  "printed v = (case v of Some t \<Rightarrow> t | None \<Rightarrow> str ''None'')"

text \<open>A line of \<open>export_emails\<close>, which the source builds "in the import format" (its
  comment): four fields for an Outlook mailbox, and address, password and kind for any
  other.\<close>

definition export_line :: "email_info \<Rightarrow> pystr" where
  "export_line e =
     (if mail_type e = str ''outlook''
      then email e @ str ''----'' @ printed (password e) @ str ''----'' @
           printed (client_id e) @ str ''----'' @ printed (refresh_token e)
      else email e @ str ''----'' @ printed (password e) @ str ''----'' @ mail_type e)"

text \<open>The reasons of \<open>failed_details\<close>: "format error, 4 fields needed", "a field is
  blank", "the address exists already", and "import exception" with the exception.\<close>

datatype reason =
    Format_error_need_4_fields
  | Blank_field
  | Address_exists
  | Import_exception exn

record failed_detail =
  line_no :: nat
  line_content :: pystr
  why :: reason

record import_result =
  total_lines :: nat
  success_count :: nat
  failed_details :: "failed_detail list"

text \<open>The body of the loop of \<open>import_emails\<close> for the line with index \<open>i\<close> (from 0):
  the line is stripped; an empty one is skipped; one that does not split at \<open>----\<close> into
  exactly four parts, or has an empty part, is reported; the others go to
  \<open>db.add_email\<close> with the \<open>mail_type\<close> of the request.\<close>

definition import_line ::
  "python \<Rightarrow> 'w env \<Rightarrow> int \<Rightarrow> pystr \<Rightarrow> nat \<Rightarrow> pystr \<Rightarrow> import_result \<Rightarrow> 'w sys \<Rightarrow>
   import_result \<times> 'w sys" where
  "import_line P E uid kind i raw_line acc s =
     (let line = strip P raw_line in
      if line = [] then (acc, s)
      else
        case split line (str ''----'') of
          [address, pw, client, refresh_tok] \<Rightarrow>
            if address = [] \<or> pw = [] \<or> client = [] \<or> refresh_tok = [] then
              (acc\<lparr>failed_details := failed_details acc @
                   [\<lparr> line_no = i + 1, line_content = line, why = Blank_field \<rparr>]\<rparr>, s)
            else
              (case call (add_email E uid address pw client refresh_tok kind)
                      (emit (Add_email uid address pw client refresh_tok kind) s) of
                 (Inr ok, s') \<Rightarrow>
                   if ok then (acc\<lparr>success_count := success_count acc + 1\<rparr>, s')
                   else
                     (acc\<lparr>failed_details := failed_details acc @
                          [\<lparr> line_no = i + 1, line_content = line, why = Address_exists \<rparr>]\<rparr>,
                      s')
               | (Inl e, s') \<Rightarrow>
                   (acc\<lparr>failed_details := failed_details acc @
                        [\<lparr> line_no = i + 1, line_content = line,
                           why = Import_exception e \<rparr>]\<rparr>, s'))
        | parts \<Rightarrow>
            (acc\<lparr>failed_details := failed_details acc @
                 [\<lparr> line_no = i + 1, line_content = line,
                    why = Format_error_need_4_fields \<rparr>]\<rparr>, s))"

fun import_loop ::
  "python \<Rightarrow> 'w env \<Rightarrow> int \<Rightarrow> pystr \<Rightarrow> nat \<Rightarrow> pystr list \<Rightarrow> import_result \<Rightarrow> 'w sys \<Rightarrow>
   import_result \<times> 'w sys" where
  "import_loop P E uid kind i [] acc s = (acc, s)"
| "import_loop P E uid kind i (raw_line # rest) acc s =
     (case import_line P E uid kind i raw_line acc s of
        (acc', s') \<Rightarrow> import_loop P E uid kind (i + 1) rest acc' s')"

text \<open>\<open>import_emails\<close> for the user \<open>uid\<close> with the \<open>data\<close> and \<open>mail_type\<close> of the request
  (both \<open>str\<close>). \<open>None\<close> is the answer 400 to empty data. The lines are those of the
  stripped data, so the reported line numbers count from its first non-blank line.\<close>

definition import_emails ::
  "python \<Rightarrow> 'w env \<Rightarrow> int \<Rightarrow> pystr \<Rightarrow> pystr \<Rightarrow> 'w sys \<Rightarrow> import_result option \<times> 'w sys" where
  "import_emails P E uid data kind s =
     (if data = [] then (None, s)
      else
        (let lines = split (strip P data) [10] in
         case import_loop P E uid kind 0 lines
                \<lparr> total_lines = length lines, success_count = 0, failed_details = [] \<rparr> s of
           (r, s') \<Rightarrow> (Some r, s')))"

section \<open>app.py: get_verification_code\<close>

text \<open>The patterns of \<open>code_patterns\<close>, in the order of the source. The Chinese
  literals are written here by name: YZM is U+9A8C U+8BC1 U+7801 ("verification code"),
  FC is the fullwidth colon U+FF1A, SNDE is U+662F U+60A8 U+7684 and WNDE is
  U+4E3A U+60A8 U+7684 (both "is your").
  \<^item> \<^verbatim>\<open>YZM[FC:\s]*(\d{4,8})\<close>
  \<^item> \<^verbatim>\<open>code[FC:\s]+is[FC:\s]+(\d{4,8})\<close>
  \<^item> \<^verbatim>\<open>code[FC:\s]*(\d{4,8})\<close>
  \<^item> \<^verbatim>\<open>verification[FC:\s]+code[FC:\s]+is[FC:\s]+(\d{4,8})\<close>
  \<^item> \<^verbatim>\<open>verification[FC:\s]*(\d{4,8})\<close>
  \<^item> \<^verbatim>\<open>(\d{4,8})\s*(?:SNDE|WNDE|is your)\<close>
  \<^item> \<^verbatim>\<open>\b(\d{4,8})\b\<close>
\<close>

definition separators :: atom where
  "separators = Any_of [Chr 65306, Chr 58, Space]"

definition code_group :: regex where
  "code_group = Group (Rep Digit 4 (Some 8))"

definition code_patterns :: "regex list" where
  "code_patterns =
     [Seq (Lit [39564, 35777, 30721]) (Seq (Rep separators 0 None) code_group),
      Seq (Lit (str ''code''))
        (Seq (Rep separators 1 None)
           (Seq (Lit (str ''is'')) (Seq (Rep separators 1 None) code_group))),
      Seq (Lit (str ''code'')) (Seq (Rep separators 0 None) code_group),
      Seq (Lit (str ''verification''))
        (Seq (Rep separators 1 None)
           (Seq (Lit (str ''code''))
              (Seq (Rep separators 1 None)
                 (Seq (Lit (str ''is'')) (Seq (Rep separators 1 None) code_group))))),
      Seq (Lit (str ''verification'')) (Seq (Rep separators 0 None) code_group),
      Seq code_group
        (Seq (Rep Space 0 None)
           (Alt (Lit [26159, 24744, 30340])
              (Alt (Lit [20026, 24744, 30340]) (Lit (str ''is your''))))),
      Seq Word_boundary (Seq code_group Word_boundary)]"

text \<open>\<open>code_keywords\<close>; the two Chinese ones are U+9A8C U+8BC1 U+7801 and
  U+786E U+8BA4 U+7801.\<close>

definition code_keywords :: "pystr list" where
  "code_keywords =
     [[39564, 35777, 30721], str ''verification'', str ''code'', str ''verify'',
      [30830, 35748, 30721], str ''OTP'', str ''pin'']"

text \<open>The keyword test of \<open>extract_code_from_mail\<close>: the keyword of the request, when
  there is one, must occur in the subject or in the content, ignoring case; without a
  keyword, one of \<open>code_keywords\<close> must.\<close>

definition mentions :: "python \<Rightarrow> pystr \<Rightarrow> message \<Rightarrow> bool" where
  "mentions P kw mail =
     (contains (lower P (subject mail)) (lower P kw) \<or>
      contains (lower P (content mail)) (lower P kw))"

definition passes_keyword_filter :: "python \<Rightarrow> pystr \<Rightarrow> message \<Rightarrow> bool" where
  "passes_keyword_filter P keyword mail =
     (if keyword \<noteq> [] then mentions P keyword mail
      else list_ex (\<lambda>kw. mentions P kw mail) code_keywords)"

text \<open>The loop over the patterns: the first element of \<open>findall\<close> for the first pattern
  that finds something is returned when it is all digits and 4 to 8 long; otherwise the
  next pattern is tried.\<close>

fun try_patterns :: "python \<Rightarrow> regex list \<Rightarrow> pystr \<Rightarrow> pystr option" where
  "try_patterns P [] text = None"
| "try_patterns P (pattern # rest) text =
     (case findall_first P pattern text of
        None \<Rightarrow> try_patterns P rest text
      | Some code \<Rightarrow>
          if str_isdigit P code \<and> 4 \<le> length code \<and> length code \<le> 8 then Some code
          else try_patterns P rest text)"

definition text_to_search :: "message \<Rightarrow> pystr" where
  "text_to_search mail = subject mail @ str '' '' @ content mail"

record code_result =
  code_email :: pystr
  code :: pystr
  code_mail :: message

text \<open>\<open>extract_code_from_mail(mail)\<close> for the \<open>email\<close> and \<open>keyword\<close> of the request. The
  dictionary returned holds the address, the code and the subject, sender and
  \<open>received_time\<close> of the mail.\<close>

definition extract_code_from_mail ::
  "python \<Rightarrow> pystr \<Rightarrow> pystr \<Rightarrow> message \<Rightarrow> code_result option" where
  "extract_code_from_mail P email_address keyword mail =
     (if \<not> passes_keyword_filter P keyword mail then None
      else case try_patterns P code_patterns (text_to_search mail) of
             None \<Rightarrow> None
           | Some c \<Rightarrow> Some \<lparr> code_email = email_address, code = c, code_mail = mail \<rparr>)"

text \<open>The time of a mail as the first scan reads it: \<open>fromisoformat\<close> of the text with
  \<open>Z\<close> and \<open>+00:00\<close> removed when it contains a \<open>T\<close>, else \<open>strptime\<close>. The writers of
  \<open>mail_records\<close> in the sources store \<open>strftime("%Y-%m-%d %H:%M:%S")\<close> texts or Graph's
  form ending in \<open>Z\<close>, which give a \<open>datetime\<close> without time zone; a text with another
  offset (an aware \<open>datetime\<close>) is outside the model.\<close>

definition without_utc :: "pystr \<Rightarrow> pystr" where
  "without_utc t = replace (replace t (str ''Z'') (str ''+00:00'')) (str ''+00:00'') []"

definition mail_time :: "python \<Rightarrow> pystr \<Rightarrow> exn + int" where
  "mail_time P t =
     (if contains t (str ''T'') then fromisoformat P (without_utc t) else strptime P t)"

text \<open>\<open>get_mail_time\<close>, the sort key: \<open>datetime.min\<close> for a mail without time or with
  one that does not parse.\<close>

definition get_mail_time :: "python \<Rightarrow> message \<Rightarrow> int" where
  "get_mail_time P mail =
     (if falsy (received_time mail) then datetime_min P
      else case mail_time P (the (received_time mail)) of
             Inr t \<Rightarrow> t
           | Inl e \<Rightarrow> datetime_min P)"

text \<open>\<open>sorted(mail_records, key=get_mail_time, reverse=True)\<close>: newest first, mails of
  equal time in their order in the list.\<close>

definition newest_first :: "python \<Rightarrow> message list \<Rightarrow> message list" where
  "newest_first P mails = rev (sort_key (get_mail_time P) (rev mails))"

definition seconds :: "int \<Rightarrow> int" where
  "seconds n = n * 1000000"

text \<open>The first loop of \<open>get_verification_code\<close>, over the sorted mails: a mail with a
  time that parses and is not before \<open>recent_limit\<close> is searched for a code; the first
  hit is returned. An exception is logged and the loop goes on.\<close>

fun scan_recent ::
  "python \<Rightarrow> pystr \<Rightarrow> pystr \<Rightarrow> int \<Rightarrow> message list \<Rightarrow> code_result option" where
  "scan_recent P email_address keyword recent_limit [] = None"
| "scan_recent P email_address keyword recent_limit (mail # rest) =
     (if falsy (received_time mail) then scan_recent P email_address keyword recent_limit rest
      else
        case mail_time P (the (received_time mail)) of
          Inl e \<Rightarrow> scan_recent P email_address keyword recent_limit rest
        | Inr t \<Rightarrow>
            if recent_limit \<le> t then
              (case extract_code_from_mail P email_address keyword mail of
                 Some result \<Rightarrow> Some result
               | None \<Rightarrow> scan_recent P email_address keyword recent_limit rest)
            else scan_recent P email_address keyword recent_limit rest)"

text \<open>The loop over the mails inside the polling loop: every time is read with
  \<open>fromisoformat\<close>, and a mail counts when its time is not before \<open>start_time\<close> minus
  10 seconds.\<close>

fun scan_new ::
  "python \<Rightarrow> pystr \<Rightarrow> pystr \<Rightarrow> int \<Rightarrow> message list \<Rightarrow> code_result option" where
  "scan_new P email_address keyword start_time [] = None"
| "scan_new P email_address keyword start_time (mail # rest) =
     (if falsy (received_time mail) then scan_new P email_address keyword start_time rest
      else
        case fromisoformat P (without_utc (the (received_time mail))) of
          Inl e \<Rightarrow> scan_new P email_address keyword start_time rest
        | Inr t \<Rightarrow>
            if start_time - seconds 10 \<le> t then
              (case extract_code_from_mail P email_address keyword mail of
                 Some result \<Rightarrow> Some result
               | None \<Rightarrow> scan_new P email_address keyword start_time rest)
            else scan_new P email_address keyword start_time rest)"

text \<open>The answers of the endpoint: 400 without an address, 404 for an unknown mailbox,
  200 with the code, 404 after the timeout. An exception of the store is \<open>Inl\<close> (Flask
  answers 500).\<close>

datatype code_response =
    Bad_request_400
  | Mailbox_not_found_404
  | Code_found_200 code_result
  | No_code_404

text \<open>The polling loop \<open>while datetime.now() < end_time\<close>. Whether it ends depends on
  the clock of the world, so the loop takes a bound on its rounds: \<open>None\<close> when the bound
  is used up before the loop ends.\<close>

fun poll_loop ::
  "python \<Rightarrow> 'w env \<Rightarrow> pystr \<Rightarrow> pystr \<Rightarrow> int \<Rightarrow> int \<Rightarrow> int \<Rightarrow> nat \<Rightarrow> nat \<Rightarrow> 'w sys \<Rightarrow>
   (exn + code_response) option \<times> 'w sys" where
  "poll_loop P E email_address keyword email_id start_time end_time last_mail_count 0 s =
     (None, s)"
| "poll_loop P E email_address keyword email_id start_time end_time last_mail_count
     (Suc rounds) s =
     (if \<not> now E (world s) < end_time then (Some (Inr No_code_404), s)
      else
        case call (get_mail_records E email_id None) (do_sleep E 2 s) of
          (Inl e, s') \<Rightarrow> (Some (Inl e), s')
        | (Inr mail_records, s') \<Rightarrow>
            if last_mail_count < length mail_records then
              (case scan_new P email_address keyword start_time mail_records of
                 Some result \<Rightarrow> (Some (Inr (Code_found_200 result)), s')
               | None \<Rightarrow>
                   poll_loop P E email_address keyword email_id start_time end_time
                     (length mail_records) rounds s')
            else
              poll_loop P E email_address keyword email_id start_time end_time
                last_mail_count rounds s')"

text \<open>\<open>get_verification_code(current_user)\<close> with the \<open>email\<close>, \<open>keyword\<close> and \<open>timeout\<close> (in
  seconds) of the request body; \<open>keyword\<close> is a \<open>str\<close>, empty when not given. The
  mailbox is the first of the caller's whose address equals \<open>email\<close> ignoring case.\<close>

definition get_verification_code ::
  "python \<Rightarrow> 'w env \<Rightarrow> bool \<Rightarrow> int \<Rightarrow> pystr \<Rightarrow> pystr \<Rightarrow> int \<Rightarrow> nat \<Rightarrow> 'w sys \<Rightarrow>
   (exn + code_response) option \<times> 'w sys" where
  "get_verification_code P E is_admin uid email_address keyword timeout rounds s =
     (if email_address = [] then (Some (Inr Bad_request_400), s)
      else
        case call (get_all_emails E (if is_admin then None else Some uid)) s of
          (Inl e, s1) \<Rightarrow> (Some (Inl e), s1)
        | (Inr emails, s1) \<Rightarrow>
            (case find (\<lambda>e. lower P (email e) = lower P email_address) emails of
               None \<Rightarrow> (Some (Inr Mailbox_not_found_404), s1)
             | Some email_info \<Rightarrow>
                 (let start_time = now E (world s1);
                      end_time = start_time + seconds timeout
                  in case call (get_mail_records E (id' email_info) None) s1 of
                       (Inl e, s2) \<Rightarrow> (Some (Inl e), s2)
                     | (Inr mail_records, s2) \<Rightarrow>
                         (let recent_limit = start_time - seconds 30 in
                          case scan_recent P email_address keyword recent_limit
                                 (newest_first P mail_records) of
                            Some result \<Rightarrow> (Some (Inr (Code_found_200 result)), s2)
                          | None \<Rightarrow>
                              poll_loop P E email_address keyword (id' email_info) start_time
                                end_time (length mail_records) rounds s2))))"

text \<open>Two properties of a pattern that can be read off its syntax: it has no group;
  and every match of it sets the group by \<^verbatim>\<open>(\d{4,8})\<close>. Every pattern of
  \<open>code_patterns\<close> has the second one. \<open>decimal_are_digits\<close> is the fact of the Unicode
  database that \<open>str.isdigit\<close> holds of every character that \<open>\d\<close> matches.\<close>

fun groupless :: "regex \<Rightarrow> bool" where
  "groupless (Lit l) = True"
| "groupless (Rep a lo hi) = True"
| "groupless (Seq r1 r2) = (groupless r1 \<and> groupless r2)"
| "groupless (Alt r1 r2) = (groupless r1 \<and> groupless r2)"
| "groupless (Group r) = False"
| "groupless Word_boundary = True"

fun sets_code :: "regex \<Rightarrow> bool" where
  "sets_code (Group r) = (r = Rep Digit 4 (Some 8))"
| "sets_code (Seq r1 r2) = ((sets_code r1 \<and> groupless r2) \<or> sets_code r2)"
| "sets_code (Alt r1 r2) = (sets_code r1 \<and> sets_code r2)"
| "sets_code r = False"

definition four_to_eight_digits :: "python \<Rightarrow> pystr \<Rightarrow> bool" where
  "four_to_eight_digits P t =
     (4 \<le> length t \<and> length t \<le> 8 \<and> list_all (\<lambda>c. decimal P c \<noteq> None) t)"

definition decimal_are_digits :: "python \<Rightarrow> bool" where
  "decimal_are_digits P = (\<forall>c. decimal P c \<noteq> None \<longrightarrow> isdigit P c)"

section \<open>Sample instances\<close>

text \<open>
  The theorems are exercised on these instances. \<open>ascii_python\<close> is an interpreter whose
  tables know the ASCII digits and letters and CPython's list of spaces; on ASCII strings
  it agrees with CPython 3.11. Its \<open>datetime\<close> parsers know two readings of the clock
  on 9 January 2026: noon, which is 0 on its scale, and 04:00:00, eight hours before.
\<close>

definition ascii_lower :: "nat \<Rightarrow> nat" where
  "ascii_lower c = (if 65 \<le> c \<and> c \<le> 90 then c + 32 else c)"

definition ascii_python :: python where
  "ascii_python =
     \<lparr> decimal = (\<lambda>c. if 48 \<le> c \<and> c \<le> 57 then Some (c - 48) else None),
       isspace = (\<lambda>c. c \<in> set [9, 10, 11, 12, 13, 28, 29, 30, 31, 32, 133, 160, 5760, 8192,
                              8193, 8194, 8195, 8196, 8197, 8198, 8199, 8200, 8201, 8202,
                              8232, 8233, 8239, 8287, 12288]),
       isdigit = (\<lambda>c. 48 \<le> c \<and> c \<le> 57),
       isalnum = (\<lambda>c. (48 \<le> c \<and> c \<le> 57) \<or> (65 \<le> c \<and> c \<le> 90) \<or> (97 \<le> c \<and> c \<le> 122)),
       lower = map ascii_lower,
       ignorecase_eq = (\<lambda>a b. ascii_lower a = ascii_lower b),
       int_max_str_digits = 4300,
       strptime = (\<lambda>s. if s = str ''2026-01-09 12:00:00'' then Inr 0
                       else if s = str ''2026-01-09 04:00:00'' then Inr (- 28800000000)
                       else Inl ValueError),
       fromisoformat = (\<lambda>s. if s = str ''2026-01-09T12:00:00'' then Inr 0 else Inl ValueError),
       datetime_min = - 1000000000000 \<rparr>"

text \<open>
  Modelled from the spec: \<open>database/db.py\<close> is not among the sources. \<open>sample_env\<close>
  implements the store as the spec describes it (3, 4.2): a message is inserted unless
  one with the same (\<open>email_id\<close>, \<open>sender\<close>, \<open>subject\<close>, \<open>received_time\<close>) is stored, and
  the insert returns the new id; \<open>update_check_time\<close> sets \<open>last_check_time\<close> to the
  clock; an address is unique per user. The network answers from scripts of replies, one
  per request, and with an error when a script is used up. The clock stands still
  (\<open>sw_now\<close> is its reading as the store prints it, \<open>sw_clock\<close> in microseconds).
\<close>

record sample_world =
  sw_emails :: "email_info list"
  sw_mails :: "(int \<times> message \<times> pystr) list"
  sw_subscriptions :: "(int \<times> subscription) list"
  sw_now :: pystr
  sw_clock :: int
  sw_token_replies :: "(exn + json) list"
  sw_message_replies :: "(exn + nat \<times> message list) list"
  sw_subscription_replies :: "(exn + sub_response) list"

definition same_mail :: "int \<Rightarrow> message \<Rightarrow> int \<times> message \<times> pystr \<Rightarrow> bool" where
  "same_mail email_id m row =
     (case row of (i, m', f) \<Rightarrow>
        i = email_id \<and> sender m' = sender m \<and> subject m' = subject m \<and>
        received_time m' = received_time m)"

definition sw_add_mail_record ::
  "int \<Rightarrow> message \<Rightarrow> pystr \<Rightarrow> sample_world \<Rightarrow> (exn + bool \<times> int option) \<times> sample_world" where
  "sw_add_mail_record email_id m f w =
     (if list_ex (same_mail email_id m) (sw_mails w) then (Inr (False, None), w)
      else (Inr (True, Some (int (length (sw_mails w)) + 1)),
            w\<lparr>sw_mails := sw_mails w @ [(email_id, m, f)]\<rparr>))"

definition sw_update_check_time :: "int \<Rightarrow> sample_world \<Rightarrow> (exn + unit) \<times> sample_world" where
  "sw_update_check_time email_id w =
     (Inr (),
      w\<lparr>sw_emails :=
          map (\<lambda>e. if id' e = email_id then e\<lparr>last_check_time := Some (sw_now w)\<rparr> else e)
            (sw_emails w)\<rparr>)"

definition sw_mails_of :: "int \<Rightarrow> sample_world \<Rightarrow> message list" where
  "sw_mails_of email_id w =
     map (\<lambda>(i, m, f). m) (filter (\<lambda>(i, m, f). i = email_id) (sw_mails w))"

definition sw_add_email ::
  "int \<Rightarrow> pystr \<Rightarrow> pystr \<Rightarrow> pystr \<Rightarrow> pystr \<Rightarrow> pystr \<Rightarrow> sample_world \<Rightarrow>
   (exn + bool) \<times> sample_world" where
  "sw_add_email uid address pw client refresh_tok kind w =
     (if list_ex (\<lambda>e. user_id e = Some uid \<and> email e = address) (sw_emails w)
      then (Inr False, w)
      else (Inr True,
            w\<lparr>sw_emails := sw_emails w @
                 [\<lparr> id' = int (length (sw_emails w)) + 1, user_id = Some uid, email = address,
                    password = Some pw, refresh_token = Some refresh_tok, client_id = Some client,
                    last_check_time = None, mail_type = kind \<rparr>]\<rparr>))"

definition sw_strptime_iso :: "pystr \<Rightarrow> exn + pystr" where
  "sw_strptime_iso s =
     (if length s = 19 \<and> s ! 10 = 32 then Inr (s[10 := 84] @ [90]) else Inl ValueError)"

definition sample_env :: "sample_world env" where
  "sample_env =
     \<lparr> get_email_by_id = (\<lambda>i w. (Inr (find (\<lambda>e. id' e = i) (sw_emails w)), w)),
       get_all_emails = (\<lambda>u w.
          (Inr (case u of None \<Rightarrow> sw_emails w
                | Some uid \<Rightarrow> filter (\<lambda>e. user_id e = Some uid) (sw_emails w)), w)),
       add_mail_record = sw_add_mail_record,
       update_check_time = sw_update_check_time,
       get_mail_count_by_email_id = (\<lambda>i w. (Inr (int (length (sw_mails_of i w))), w)),
       get_mail_records = (\<lambda>i limit w.
          (Inr (case limit of None \<Rightarrow> rev (sw_mails_of i w)
                | Some n \<Rightarrow> take n (rev (sw_mails_of i w))), w)),
       update_email_token = (\<lambda>i t w. (Inr (), w)),
       get_subscription_by_email_id = (\<lambda>i w. (Inr (map_of (sw_subscriptions w) i), w)),
       add_subscription = (\<lambda>i sub res w.
          (Inr (), w\<lparr>sw_subscriptions := sw_subscriptions w @ [(i, sub)]\<rparr>)),
       get_all_outlook_emails = (\<lambda>w.
          (Inr (filter (\<lambda>e. mail_type e = str ''outlook'') (sw_emails w)), w)),
       add_email = sw_add_email,
       post_token = (\<lambda>rt cid w.
          (case sw_token_replies w of
             [] \<Rightarrow> (Inl OtherError, w)
           | r # rs \<Rightarrow> (r, w\<lparr>sw_token_replies := rs\<rparr>))),
       get_folder_messages = (\<lambda>t f ps w.
          (case sw_message_replies w of
             [] \<Rightarrow> (Inl OtherError, w)
           | r # rs \<Rightarrow> (r, w\<lparr>sw_message_replies := rs\<rparr>))),
       post_subscription = (\<lambda>t p w.
          (case sw_subscription_replies w of
             [] \<Rightarrow> (Inl OtherError, w)
           | r # rs \<Rightarrow> (r, w\<lparr>sw_subscription_replies := rs\<rparr>))),
       expiration_after = (\<lambda>m w. (sw_now w, sw_now w)),
       sleep = (\<lambda>n w. w),
       now = sw_clock,
       strptime_iso = sw_strptime_iso \<rparr>"

text \<open>A mailbox, a message and a world with that mailbox and an empty store.\<close>

definition mailbox7 :: email_info where
  "mailbox7 =
     \<lparr> id' = 7, user_id = Some 1, email = str ''a@outlook.com'',
       password = Some (str ''pw''), refresh_token = Some (str ''rt''), client_id = Some (str ''cid''),
       last_check_time = None, mail_type = str ''outlook'' \<rparr>"

definition code_mail :: message where
  "code_mail =
     \<lparr> subject = str ''Your code is 482917'', sender = str ''no-reply <no-reply@site.com>'',
       received_time = Some (str ''2026-01-09 12:00:00''), content = str ''482917'',
       has_attachments = False \<rparr>"

definition token_ok :: json where
  "token_ok = JObj [(str ''access_token'', JStr (str ''at''))]"

definition world7 :: sample_world where
  "world7 =
     \<lparr> sw_emails = [mailbox7], sw_mails = [], sw_subscriptions = [],
       sw_now = str ''2026-01-09 12:00:05'', sw_clock = 5000000,
       sw_token_replies = [], sw_message_replies = [], sw_subscription_replies = [] \<rparr>"

definition sys_of :: "'w \<Rightarrow> 'w sys" where
  "sys_of w = \<lparr> world = w, trace = [], processing_emails = {}, ws_handler = Some True \<rparr>"

text \<open>A change notification as Microsoft Graph posts it, with a given \<open>changeType\<close> and
  \<open>clientState\<close>.\<close>

definition notification_of :: "pystr \<Rightarrow> pystr \<Rightarrow> json" where
  "notification_of change_type client_state =
     JObj [(str ''subscriptionId'', JStr (str ''sub-1'')),
           (str ''changeType'', JStr change_type),
           (str ''clientState'', JStr client_state),
           (str ''resource'', JStr (str ''Users/u/Messages/m''))]"



text \<open>Two Outlook mailboxes without subscriptions, and a network that answers the
  first subscription request with 429 and \<open>Retry-After: 30\<close> and the second with 201.\<close>

definition outlook_mailbox :: "int \<Rightarrow> email_info" where
  "outlook_mailbox i =
     \<lparr> id' = i, user_id = Some 1, email = str ''box'' @ str_of_int i @ str ''@outlook.com'',
       password = Some (str ''pw''), refresh_token = Some (str ''rt''), client_id = Some (str ''cid''),
       last_check_time = None, mail_type = str ''outlook'' \<rparr>"

definition throttled_30 :: sub_response where
  "throttled_30 =
     \<lparr> status_code = 429, response_id = Inr JNull, retry_after = Some (str ''30'') \<rparr>"

definition created_201 :: sub_response where
  "created_201 =
     \<lparr> status_code = 201, response_id = Inr (JStr (str ''sub-2'')), retry_after = None \<rparr>"

definition world_two :: sample_world where
  "world_two =
     \<lparr> sw_emails = [outlook_mailbox 1, outlook_mailbox 2], sw_mails = [],
       sw_subscriptions = [], sw_now = str ''2026-01-09 12:00:05'', sw_clock = 5000000,
       sw_token_replies = [Inr token_ok, Inr token_ok], sw_message_replies = [],
       sw_subscription_replies = [Inr throttled_30, Inr created_201] \<rparr>"

definition subscription_payload :: "int \<Rightarrow> payload" where
  "subscription_payload i =
     \<lparr> changeType = str ''created'', notificationUrl = str ''https://host/api/graph/webhook'',
       resource = str ''me/mailFolders('Inbox')/messages'',
       expirationDateTime = str ''2026-01-09 12:00:05'',
       clientState = str ''email_'' @ str_of_int i \<rparr>"

text \<open>Mailbox 7 with one stored message (an imported one) and no \<open>last_check_time\<close>;
  and checked before, with one stored message.\<close>

definition world7_imported :: sample_world where
  "world7_imported =
     world7\<lparr>sw_mails := [(7, code_mail, str ''IMPORTED'')],
            sw_token_replies := [Inr token_ok],
            sw_message_replies := [Inr (200, []), Inr (200, [])]\<rparr>"

definition mailbox7_checked :: email_info where
  "mailbox7_checked = mailbox7\<lparr>last_check_time := Some (str ''2026-01-05 18:58:09'')\<rparr>"

definition world7_checked :: sample_world where
  "world7_checked =
     world7_imported\<lparr>sw_emails := [mailbox7_checked]\<rparr>"

text \<open>A Gmail mailbox as the store returns it, and a world with an empty store.\<close>

definition gmail_mailbox :: email_info where
  "gmail_mailbox =
     \<lparr> id' = 3, user_id = Some 1, email = str ''user@gmail.com'',
       password = Some (str ''secret''), refresh_token = None, client_id = None,
       last_check_time = None, mail_type = str ''gmail'' \<rparr>"

definition empty_world :: sample_world where
  "empty_world = world7\<lparr>sw_emails := []\<rparr>"

text \<open>Mailbox 7 with the code mail stored, received 5 seconds before the clock's
  time.\<close>

definition world7_code :: sample_world where
  "world7_code = world7\<lparr>sw_mails := [(7, code_mail, str ''INBOX'')]\<rparr>"

text \<open>A server whose local time is UTC+8, at 12:00:05 by its clock (04:00:05 UTC), and
  a mail that Microsoft Graph reports as received at \<open>2026-01-09T04:00:00Z\<close>, five
  seconds earlier. \<open>get_messages\<close> reads that as the \<open>datetime\<close> 04:00:00 in UTC, and the
  fetch jobs store its \<open>strftime("%Y-%m-%d %H:%M:%S")\<close>, which is the UTC reading
  \<open>2026-01-09 04:00:00\<close>. In \<open>ticking_env\<close> a \<open>time.sleep(n)\<close> moves the clock on by \<open>n\<close>
  seconds.\<close>

definition utc_code_mail :: message where
  "utc_code_mail = code_mail\<lparr>received_time := Some (str ''2026-01-09 04:00:00'')\<rparr>"

definition world7_utc8 :: sample_world where
  "world7_utc8 = world7\<lparr>sw_mails := [(7, utc_code_mail, str ''INBOX'')]\<rparr>"

definition ticking_env :: "sample_world env" where
  "ticking_env =
     sample_env\<lparr>sleep := (\<lambda>n w. w\<lparr>sw_clock := sw_clock w + int n * 1000000\<rparr>)\<rparr>"
section \<open>Verification: utils/crypto.py\<close>

lemma contract_decrypt:
  "fernet_contract L \<Longrightarrow> fernet_encrypt L f b = Inr t \<Longrightarrow> t \<noteq> [] \<and> fernet_decrypt L f t = Inr b"
  unfolding fernet_contract_def by blast

lemma contract_decode:
  "fernet_contract L \<Longrightarrow> str_encode L s = Inr b \<Longrightarrow> bytes_decode L b = Inr s"
  unfolding fernet_contract_def by blast

lemma contract_encode:
  "fernet_contract L \<Longrightarrow> bytes_decode L b = Inr s \<Longrightarrow> str_encode L s = Inr b"
  unfolding fernet_contract_def by blast

lemma contract_empty: "fernet_contract L \<Longrightarrow> str_encode L [] = Inr []"
  unfolding fernet_contract_def by blast

lemma encrypt_try_SomeD:
  assumes e: "encrypt_try L env st p = (Inr c, g)"
  shows "\<exists>f b t. get_fernet L env st = (Inr f, g) \<and> str_encode L p = Inr b \<and>
     fernet_encrypt L f b = Inr t \<and> bytes_decode L t = Inr c"
  using e unfolding encrypt_try_def
  by (simp split: prod.splits sum.splits)

lemma get_fernet_caches: "get_fernet L env st = (Inr f, g) \<Longrightarrow> g = Some f"
  unfolding get_fernet_def by (simp split: option.splits sum.splits)

lemma sample_lib_contract: "fernet_contract sample_lib"
  unfolding fernet_contract_def
  by (simp add: sample_lib_def ascii_encode_def str_def split: if_splits)


lemma decrypt_after_encrypt_try:
  assumes c: "fernet_contract L"
    and e: "encrypt_try L env st p = (Inr c, g)"
    and p: "p \<noteq> []"
  shows "fst (decrypt L env g c) = Inr p"
proof -
  from encrypt_try_SomeD [OF e] obtain f b t where
    gf: "get_fernet L env st = (Inr f, g)" and
    en: "str_encode L p = Inr b" and
    fe: "fernet_encrypt L f b = Inr t" and
    de: "bytes_decode L t = Inr c"
    by blast
  have g: "g = Some f" using gf by (rule get_fernet_caches)
  have t: "t \<noteq> []" and fd: "fernet_decrypt L f t = Inr b"
    using contract_decrypt [OF c fe] by simp_all
  have ec: "str_encode L c = Inr t" using c de by (rule contract_encode)
  have db: "bytes_decode L b = Inr p" using c en by (rule contract_decode)
  have "c \<noteq> []"
  proof
    assume "c = []"
    with ec contract_empty [OF c] have "t = []" by simp
    with t show False by simp
  qed
  then show ?thesis
    using ec fd db unfolding g decrypt_def decrypt_try_def get_fernet_def by simp
qed

lemma decrypt_unrecognizable:
  assumes "\<not> recognizable L env st s"
  shows "fst (decrypt L env st s) = Inr s"
proof (cases "get_fernet L env st")
  case (Pair r g)
  show ?thesis
  proof (cases r)
    case (Inl e)
    with Pair show ?thesis by (simp add: decrypt_def decrypt_try_def)
  next
    case (Inr f)
    with Pair assms show ?thesis
      by (simp add: recognizable_def decrypt_def decrypt_try_def split: sum.splits)
  qed
qed






text \<open>
  C8. A string that is not recognizable ciphertext under the configured key comes back
  from \<open>decrypt\<close> unchanged; and for every plaintext that \<open>encrypt\<close> accepts (the empty
  one, which it returns as it is, or one for which the cipher path completes),
  decrypting what \<open>encrypt\<close> returned gives the plaintext back. The second part uses
  what the libraries guarantee (\<open>fernet_contract\<close>).
\<close>

theorem decrypt_tolerant_and_roundtrip:
  "(\<not> recognizable L env st s \<longrightarrow> fst (decrypt L env st s) = Inr s) \<and>
   (fernet_contract L \<and> (p = [] \<or> (\<exists>c. fst (encrypt_try L env st p) = Inr c)) \<longrightarrow>
      (\<exists>c. fst (encrypt L env st p) = Inr c \<and>
           fst (decrypt L env (snd (encrypt L env st p)) c) = Inr p))"
proof (intro conjI impI)
  assume "\<not> recognizable L env st s"
  then show "fst (decrypt L env st s) = Inr s" by (rule decrypt_unrecognizable)
next
  assume a: "fernet_contract L \<and> (p = [] \<or> (\<exists>c. fst (encrypt_try L env st p) = Inr c))"
  show "\<exists>c. fst (encrypt L env st p) = Inr c \<and>
            fst (decrypt L env (snd (encrypt L env st p)) c) = Inr p"
  proof (cases "p = []")
    case True
    then show ?thesis by (simp add: encrypt_def decrypt_def)
  next
    case False
    with a obtain c where "fst (encrypt_try L env st p) = Inr c" by blast
    then obtain g where e: "encrypt_try L env st p = (Inr c, g)"
      by (cases "encrypt_try L env st p") simp
    from a have "fernet_contract L" by simp
    then have "fst (decrypt L env g c) = Inr p"
      using e False by (rule decrypt_after_encrypt_try)
    with e False show ?thesis by (simp add: encrypt_def)
  qed
qed

theorem decrypt_tolerant_and_roundtrip_witness:
  "\<not> recognizable sample_lib sample_environ None (str ''legacy-pw'') \<and>
   fst (decrypt sample_lib sample_environ None (str ''legacy-pw'')) = Inr (str ''legacy-pw'') \<and>
   fernet_contract sample_lib \<and>
   fst (encrypt_try sample_lib sample_environ None (str ''pw'')) = Inr (str ''gAAAAApw'') \<and>
   fst (encrypt sample_lib sample_environ None (str ''pw'')) = Inr (str ''gAAAAApw'') \<and>
   fst (decrypt sample_lib sample_environ (snd (encrypt sample_lib sample_environ None (str ''pw'')))
          (str ''gAAAAApw'')) = Inr (str ''pw'')"
proof -
  have r: "\<not> recognizable sample_lib sample_environ None (str ''legacy-pw'')"
    by (simp add: recognizable_def get_fernet_def get_encryption_key_def sample_lib_def
        sample_environ_def ascii_encode_def str_def)
  have t: "fst (encrypt_try sample_lib sample_environ None (str ''pw'')) = Inr (str ''gAAAAApw'')"
    by (simp add: encrypt_try_def get_fernet_def get_encryption_key_def sample_lib_def
        sample_environ_def ascii_encode_def str_def)
  have e: "fst (encrypt sample_lib sample_environ None (str ''pw'')) = Inr (str ''gAAAAApw'')"
    by (simp add: encrypt_def encrypt_try_def get_fernet_def get_encryption_key_def
        sample_lib_def sample_environ_def ascii_encode_def str_def)
  have n: "str ''pw'' \<noteq> []" by (simp add: str_def)
  from decrypt_tolerant_and_roundtrip
    [of sample_lib sample_environ None "str ''legacy-pw''" "str ''pw''"]
    r t e n sample_lib_contract
  show ?thesis by simp
qed

section \<open>Verification: the notification router\<close>


lemma str_email: "str ''email_'' = [101, 109, 97, 105, 108, 95]"
  by (simp add: str_def)

lemma replace_from_absent:
  "old \<noteq> [] \<Longrightarrow> hd old \<notin> set s \<Longrightarrow> replace_from s old new = s"
proof (induction s)
  case Nil
  then show ?case by simp
next
  case (Cons c cs)
  from Cons.prems have "\<not> startswith (c # cs) old"
    by (cases old) (auto simp: startswith_def)
  with Cons show ?case by simp
qed

lemma replace_prefix:
  "old \<noteq> [] \<Longrightarrow> replace (old @ t) old new = new @ replace_from t old new"
  by (cases old) (simp_all add: replace_def startswith_def)

text \<open>What scan_digits consumes are digits and underscores.\<close>

lemma scan_digits_consumes:
  "scan_digits acc n s = (v, m, r) \<Longrightarrow>
   \<exists>p. s = p @ r \<and> (\<forall>c \<in> set p. c_isdigit c \<or> c = 95)"
proof (induction acc n s rule: scan_digits.induct)
  case (1 acc n)
  then show ?case by simp
next
  case (2 acc n c cs)
  show ?case
  proof (cases "c_isdigit c")
    case True
    with 2 obtain p where "cs = p @ r" "\<forall>c \<in> set p. c_isdigit c \<or> c = 95" by auto
    with True show ?thesis by (intro exI [of _ "c # p"]) simp
  next
    case False
    show ?thesis
    proof (cases "c = 95 \<and> 0 < n \<and> (case cs of [] \<Rightarrow> False | d # ds \<Rightarrow> c_isdigit d)")
      case True
      with False 2 obtain p where "cs = p @ r" "\<forall>c \<in> set p. c_isdigit c \<or> c = 95" by auto
      with True show ?thesis by (intro exI [of _ "c # p"]) simp
    next
      case F2: False
      with False 2 have "r = c # cs" by auto
      then show ?thesis by (intro exI [of _ "[]"]) simp
    qed
  qed
qed

lemma to_ascii_e: "to_ascii P s = Some a \<Longrightarrow> 101 \<in> set s \<Longrightarrow> 101 \<in> set a"
proof (induction s arbitrary: a)
  case Nil
  then show ?case by simp
next
  case (Cons c cs)
  then show ?case
    by (auto simp: to_ascii_char_def split: option.splits if_splits)
qed

lemma dropWhile_decomp: "\<exists>p. xs = p @ dropWhile Q xs \<and> (\<forall>x \<in> set p. Q x)"
  by (intro exI [of _ "takeWhile Q xs"]) (auto dest: set_takeWhileD)

lemma py_int_SomeD:
  assumes "py_int P s = Some k"
  shows "\<exists>a v n rest. to_ascii P s = Some a \<and>
           scan_digits 0 0 (case dropWhile c_isspace a of [] \<Rightarrow> []
                            | c # cs \<Rightarrow> if c = 43 \<or> c = 45 then cs
                                       else dropWhile c_isspace a) = (v, n, rest) \<and>
           (\<forall>x \<in> set rest. c_isspace x)"
proof -
  from assms obtain a where a: "to_ascii P s = Some a"
    by (cases "to_ascii P s") (simp_all add: py_int_def)
  let ?d = "case dropWhile c_isspace a of [] \<Rightarrow> []
            | c # cs \<Rightarrow> if c = 43 \<or> c = 45 then cs else dropWhile c_isspace a"
  obtain v n rest where sc: "scan_digits 0 0 ?d = (v, n, rest)"
    by (cases "scan_digits 0 0 ?d") auto
  have "\<forall>x \<in> set rest. c_isspace x"
  proof (rule ccontr)
    assume "\<not> (\<forall>x \<in> set rest. c_isspace x)"
    then have "dropWhile c_isspace rest \<noteq> []" by (simp add: dropWhile_eq_Nil_conv)
    with a sc have "py_int P s = None" by (simp add: py_int_def Let_def)
    with assms show False by simp
  qed
  with a sc show ?thesis by blast
qed

lemma py_int_no_e:
  assumes "py_int P s = Some k"
  shows "101 \<notin> set s"
proof
  assume e: "101 \<in> set s"
  from py_int_SomeD [OF assms] obtain a v n rest where
    a: "to_ascii P s = Some a" and
    sc: "scan_digits 0 0 (case dropWhile c_isspace a of [] \<Rightarrow> []
                            | c # cs \<Rightarrow> if c = 43 \<or> c = 45 then cs
                                       else dropWhile c_isspace a) = (v, n, rest)" and
    r: "\<forall>x \<in> set rest. c_isspace x"
    by blast
  define b where "b = dropWhile c_isspace a"
  define d where "d = (case b of [] \<Rightarrow> [] | c # cs \<Rightarrow> if c = 43 \<or> c = 45 then cs else b)"
  have sc': "scan_digits 0 0 d = (v, n, rest)" using sc unfolding d_def b_def .
  from to_ascii_e [OF a e] have ea: "101 \<in> set a" .
  obtain p1 where p1: "a = p1 @ b" "\<forall>x \<in> set p1. c_isspace x"
    unfolding b_def using dropWhile_decomp [of a c_isspace] by blast
  have bd: "set b \<subseteq> insert 43 (insert 45 (set d))"
    unfolding d_def by (cases b) auto
  from scan_digits_consumes [OF sc'] obtain p2 where
    p2: "d = p2 @ rest" "\<forall>c \<in> set p2. c_isdigit c \<or> c = 95" by blast
  have ne: "\<not> c_isspace 101" "\<not> c_isdigit 101"
    by (simp_all add: c_isspace_def c_isdigit_def)
  from ea p1 have "101 \<in> set b" using ne by auto
  with bd have "101 \<in> set d" by auto
  with p2 r ne show False by auto
qed

lemma client_state_id_accepts:
  assumes "py_int P t = Some k"
  shows "client_state_id P (str ''email_'' @ t) = Some k"
proof -
  have ne: "str ''email_'' \<noteq> []" by (simp add: str_def)
  have "hd (str ''email_'') = 101" by (simp add: str_def)
  with py_int_no_e [OF assms] have "replace_from t (str ''email_'') [] = t"
    using ne by (intro replace_from_absent) simp_all
  with replace_prefix [OF ne, of t "[]"]
  have "replace (str ''email_'' @ t) (str ''email_'') [] = t" by simp
  then show ?thesis
    using assms by (simp add: client_state_id_def startswith_def)
qed

text \<open>decimal digits\<close>

lemma scan_digits_all:
  "\<forall>c \<in> set ds. c_isdigit c \<Longrightarrow>
   scan_digits acc n ds = (foldl (\<lambda>a c. a * 10 + (c - 48)) acc ds, n + length ds, [])"
  by (induction ds arbitrary: acc n) simp_all

lemma to_ascii_digits: "\<forall>c \<in> set ds. c_isdigit c \<Longrightarrow> to_ascii P ds = Some ds"
  by (induction ds) (simp_all add: to_ascii_char_def c_isdigit_def)

lemma py_int_digits:
  assumes d: "\<forall>c \<in> set ds. c_isdigit c" and ne: "ds \<noteq> []"
    and lim: "int_max_str_digits P = 0 \<or> length ds \<le> int_max_str_digits P"
  shows "py_int P ds = Some (int (foldl (\<lambda>a c. a * 10 + (c - 48)) 0 ds))"
proof -
  from ne obtain c cs where ds: "ds = c # cs" by (cases ds) auto
  with d have c: "c_isdigit c" by simp
  then have nsp: "\<not> c_isspace c" and nsg: "c \<noteq> 43" "c \<noteq> 45"
    by (auto simp: c_isdigit_def c_isspace_def)
  have dw: "dropWhile c_isspace ds = ds" using ds nsp by simp
  have l: "\<not> (int_max_str_digits P \<noteq> 0 \<and> int_max_str_digits P < length ds)"
    using lim by auto
  have sc: "scan_digits 0 0 ds = (foldl (\<lambda>a c. a * 10 + (c - 48)) 0 ds, length ds, [])"
    using scan_digits_all [OF d, of 0 0] by simp
  have sg: "(case ds of [] \<Rightarrow> [] | c # cs \<Rightarrow> if c = 43 \<or> c = 45 then cs else ds) = ds"
    by (simp add: ds nsg)
  have ng: "(case ds of [] \<Rightarrow> False | c # cs \<Rightarrow> c = 45) = False"
    by (simp add: ds nsg)
  show ?thesis
    unfolding py_int_def to_ascii_digits [OF d] option.case dw Let_def sg ng sc
    using l ne by simp
qed



lemma json_get_InrD: "json_get v key dflt = Inr r \<Longrightarrow> \<exists>kv. v = JObj kv"
  by (cases v) simp_all

lemma psn_no_id:
  assumes "json_get notification (str ''clientState'') (JStr []) = Inr (JStr cs)"
    and "client_state_id P cs = None"
  shows "process_single_notification P E notification s = (Inr (), s)"
proof -
  from json_get_InrD [OF assms(1)] obtain kv where kv: "notification = JObj kv" by blast
  with assms show ?thesis by (simp add: process_single_notification_def)
qed

lemma psn_unknown_mailbox:
  assumes "json_get notification (str ''clientState'') (JStr []) = Inr (JStr cs)"
    and "client_state_id P cs = Some i"
    and "get_email_by_id E i (world s) = (Inr None, w)"
  shows "process_single_notification P E notification s = (Inr (), s\<lparr>world := w\<rparr>)"
proof -
  from json_get_InrD [OF assms(1)] obtain kv where kv: "notification = JObj kv" by blast
  with assms show ?thesis by (simp add: process_single_notification_def call_def)
qed

lemma psn_not_created:
  assumes "json_get notification (str ''changeType'') JNull \<noteq> Inr (JStr (str ''created''))"
  shows "trace (snd (process_single_notification P E notification s)) = trace s \<and>
         processing_emails (snd (process_single_notification P E notification s)) =
           processing_emails s"
proof (cases "json_get notification (str ''changeType'') JNull")
  case (Inl e)
  then show ?thesis by (simp add: process_single_notification_def)
next
  case (Inr change_type)
  with assms have nc: "change_type \<noteq> JStr (str ''created'')" by simp
  show ?thesis
  proof (cases "json_get notification (str ''clientState'') (JStr [])")
    case (Inl e)
    with Inr show ?thesis by (simp add: process_single_notification_def)
  next
    case cs: (Inr client_state)
    show ?thesis
    proof (cases client_state)
      case (JStr c)
      show ?thesis
      proof (cases "client_state_id P c")
        case None
        with Inr cs JStr show ?thesis by (simp add: process_single_notification_def)
      next
        case (Some i)
        obtain r w where g: "get_email_by_id E i (world s) = (r, w)"
          by (cases "get_email_by_id E i (world s)") auto
        with Inr cs JStr Some nc show ?thesis
          by (simp add: process_single_notification_def call_def
              split: sum.splits option.splits)
      qed
    qed (use Inr cs in \<open>simp_all add: process_single_notification_def\<close>)
  qed
qed

lemma psn_created:
  assumes "json_get n (str ''changeType'') JNull = Inr (JStr (str ''created''))"
    and "json_get n (str ''clientState'') (JStr []) = Inr (JStr cs)"
    and "client_state_id P cs = Some i"
    and "get_email_by_id E i (world s) = (Inr (Some info), w0)"
    and "i \<notin> processing_emails s"
  shows "snd (process_single_notification P E n s) =
           (fetch_new_mail E info
              (s\<lparr>world := w0, processing_emails := insert i (processing_emails s)\<rparr>))
           \<lparr>processing_emails :=
              processing_emails (fetch_new_mail E info
                (s\<lparr>world := w0, processing_emails := insert i (processing_emails s)\<rparr>)) - {i}\<rparr>"
  using assms
  by (simp add: process_single_notification_def call_def mark_processing_def Let_def)



lemmas sample_simps =
  str_def notification_of_def world7_def mailbox7_def sys_of_def sample_env_def
  ascii_python_def call_def emit_def falsy_def
  client_state_id_def startswith_def replace_def py_int_def to_ascii_char_def
  c_isspace_def c_isdigit_def mark_processing_def

text \<open>
  C2 (as stated: fails). The router accepts the \<open>clientState\<close> \<open>email_email_7\<close>, which is
  not of the form \<open>email_<integer>\<close>, as mailbox 7 (\<open>replace\<close> removes every \<open>email_\<close>),
  and starts the fetch job for it; and \<open>int\<close> reads blanks and a sign, so
  \<open>"email_ +7 "\<close> is mailbox 7 as well.
\<close>

theorem client_state_pattern_counterexample:
  "client_state_id ascii_python (str ''email_email_7'') = Some 7 \<and>
   client_state_id ascii_python (str ''email_ +7 '') = Some 7 \<and>
   trace (snd (process_single_notification ascii_python sample_env
            (notification_of (str ''created'') (str ''email_email_7'')) (sys_of world7))) =
     [Token_request (str ''rt'') (str ''cid'')]"
  by (simp add: sample_simps process_single_notification_def fetch_new_mail_def
      get_new_access_token_def)

lemma client_state_id_None:
  "\<not> startswith cs (str ''email_'') \<or> py_int P (replace cs (str ''email_'') []) = None \<Longrightarrow>
   client_state_id P cs = None"
  by (auto simp: client_state_id_def)

lemma client_state_id_Some:
  "startswith cs (str ''email_'') \<Longrightarrow> py_int P (replace cs (str ''email_'') []) = Some i \<Longrightarrow>
   client_state_id P cs = Some i"
  by (simp add: client_state_id_def)

lemma client_state_id_SomeD:
  "client_state_id P cs = Some i \<Longrightarrow>
   startswith cs (str ''email_'') \<and> py_int P (replace cs (str ''email_'') []) = Some i"
  by (simp add: client_state_id_def split: if_splits)

text \<open>A notification whose \<open>clientState\<close> is not a \<open>str\<close> that yields an id changes
  nothing: it is dropped, or (when it is no \<open>dict\<close>, or its \<open>clientState\<close> is no \<open>str\<close>)
  the exception is left to the caller, which logs it.\<close>

lemma psn_no_mailbox_id:
  assumes "\<forall>cs. json_get n (str ''clientState'') (JStr []) = Inr (JStr cs) \<longrightarrow>
      \<not> startswith cs (str ''email_'') \<or> py_int P (replace cs (str ''email_'') []) = None"
  shows "snd (process_single_notification P E n s) = s"
proof (cases "json_get n (str ''changeType'') JNull")
  case (Inl e)
  then show ?thesis by (simp add: process_single_notification_def)
next
  case (Inr change_type)
  show ?thesis
  proof (cases "json_get n (str ''clientState'') (JStr [])")
    case (Inl e)
    with Inr show ?thesis by (simp add: process_single_notification_def)
  next
    case cs: (Inr client_state)
    show ?thesis
    proof (cases client_state)
      case (JStr c)
      with assms cs have "client_state_id P c = None"
        by (intro client_state_id_None) simp
      with Inr cs JStr show ?thesis by (simp add: process_single_notification_def)
    qed (use Inr cs in \<open>simp_all add: process_single_notification_def\<close>)
  qed
qed

text \<open>
  C2 (amended). The router reads the owning \<open>email_id\<close> from a \<open>clientState\<close> that is a
  \<open>str\<close> and starts with \<open>email_\<close>, by applying \<open>int\<close> to it with \<open>email_\<close> removed: every
  \<open>clientState\<close> \<open>email_\<close> followed by a text \<open>t\<close> that \<open>int\<close> reads passes both tests with
  the value \<open>int(t)\<close>, in particular \<open>email_\<close> followed by decimal digits (no more than
  the interpreter's digit limit) with their value. A notification whose \<open>clientState\<close>
  is not a \<open>str\<close>, does not start with \<open>email_\<close>, or is not read by \<open>int\<close> after the
  removal, leaves the state as it was (no lookup, no request, no store write, no change
  of the in-flight set), and when the \<open>clientState\<close> is a \<open>str\<close> the router returns
  normally; one whose mailbox id is not in the store is discarded with nothing done but
  that lookup; unless \<open>changeType\<close> equals \<open>created\<close> nothing is recorded (no request,
  no store write, no broadcast) and the in-flight set is unchanged; and for \<open>created\<close>,
  an id that is read, a mailbox that exists and is not in flight, the router runs the
  fetch job for that mailbox with the id marked, and removes the mark at the end.
\<close>

theorem notification_routing:
  "(py_int P t = Some k \<longrightarrow>
      startswith (str ''email_'' @ t) (str ''email_'') \<and>
      py_int P (replace (str ''email_'' @ t) (str ''email_'') []) = Some k) \<and>
   ((\<forall>c \<in> set ds. c_isdigit c) \<and> ds \<noteq> [] \<and>
    (int_max_str_digits P = 0 \<or> length ds \<le> int_max_str_digits P) \<longrightarrow>
      py_int P (replace (str ''email_'' @ ds) (str ''email_'') []) =
        Some (int (foldl (\<lambda>a c. a * 10 + (c - 48)) 0 ds))) \<and>
   ((\<forall>cs. json_get n0 (str ''clientState'') (JStr []) = Inr (JStr cs) \<longrightarrow>
        \<not> startswith cs (str ''email_'') \<or>
        py_int P (replace cs (str ''email_'') []) = None) \<longrightarrow>
      snd (process_single_notification P E n0 s) = s) \<and>
   (json_get n1 (str ''clientState'') (JStr []) = Inr (JStr cs1) \<and>
    (\<not> startswith cs1 (str ''email_'') \<or>
     py_int P (replace cs1 (str ''email_'') []) = None) \<longrightarrow>
      process_single_notification P E n1 s = (Inr (), s)) \<and>
   (json_get n2 (str ''clientState'') (JStr []) = Inr (JStr cs2) \<and>
    startswith cs2 (str ''email_'') \<and>
    py_int P (replace cs2 (str ''email_'') []) = Some i \<and>
    get_email_by_id E i (world s) = (Inr None, w) \<longrightarrow>
      process_single_notification P E n2 s = (Inr (), s\<lparr>world := w\<rparr>)) \<and>
   (json_get n3 (str ''changeType'') JNull \<noteq> Inr (JStr (str ''created'')) \<longrightarrow>
      trace (snd (process_single_notification P E n3 s)) = trace s \<and>
      processing_emails (snd (process_single_notification P E n3 s)) = processing_emails s) \<and>
   (json_get n4 (str ''changeType'') JNull = Inr (JStr (str ''created'')) \<and>
    json_get n4 (str ''clientState'') (JStr []) = Inr (JStr cs4) \<and>
    startswith cs4 (str ''email_'') \<and>
    py_int P (replace cs4 (str ''email_'') []) = Some j \<and>
    get_email_by_id E j (world s) = (Inr (Some info), w4) \<and>
    j \<notin> processing_emails s \<longrightarrow>
      snd (process_single_notification P E n4 s) =
        (fetch_new_mail E info
           (s\<lparr>world := w4, processing_emails := insert j (processing_emails s)\<rparr>))
        \<lparr>processing_emails :=
           processing_emails (fetch_new_mail E info
             (s\<lparr>world := w4, processing_emails := insert j (processing_emails s)\<rparr>)) - {j}\<rparr>)"
proof (intro conjI impI)
  assume "py_int P t = Some k"
  from client_state_id_SomeD [OF client_state_id_accepts [OF this]]
  show "startswith (str ''email_'' @ t) (str ''email_'')"
    and "py_int P (replace (str ''email_'' @ t) (str ''email_'') []) = Some k"
    by blast+
next
  assume a: "(\<forall>c \<in> set ds. c_isdigit c) \<and> ds \<noteq> [] \<and>
    (int_max_str_digits P = 0 \<or> length ds \<le> int_max_str_digits P)"
  then have "py_int P ds = Some (int (foldl (\<lambda>a c. a * 10 + (c - 48)) 0 ds))"
    by (intro py_int_digits) simp_all
  from client_state_id_SomeD [OF client_state_id_accepts [OF this]]
  show "py_int P (replace (str ''email_'' @ ds) (str ''email_'') []) =
      Some (int (foldl (\<lambda>a c. a * 10 + (c - 48)) 0 ds))"
    by blast
next
  assume "\<forall>cs. json_get n0 (str ''clientState'') (JStr []) = Inr (JStr cs) \<longrightarrow>
      \<not> startswith cs (str ''email_'') \<or> py_int P (replace cs (str ''email_'') []) = None"
  then show "snd (process_single_notification P E n0 s) = s"
    by (rule psn_no_mailbox_id)
next
  assume a: "json_get n1 (str ''clientState'') (JStr []) = Inr (JStr cs1) \<and>
    (\<not> startswith cs1 (str ''email_'') \<or>
     py_int P (replace cs1 (str ''email_'') []) = None)"
  then have "\<not> startswith cs1 (str ''email_'') \<or>
     py_int P (replace cs1 (str ''email_'') []) = None" by simp
  then have "client_state_id P cs1 = None" by (rule client_state_id_None)
  with a show "process_single_notification P E n1 s = (Inr (), s)"
    by (intro psn_no_id [of n1 cs1]) blast+
next
  assume a: "json_get n2 (str ''clientState'') (JStr []) = Inr (JStr cs2) \<and>
    startswith cs2 (str ''email_'') \<and>
    py_int P (replace cs2 (str ''email_'') []) = Some i \<and>
    get_email_by_id E i (world s) = (Inr None, w)"
  then have "client_state_id P cs2 = Some i" by (intro client_state_id_Some) blast+
  with a show "process_single_notification P E n2 s = (Inr (), s\<lparr>world := w\<rparr>)"
    by (intro psn_unknown_mailbox [of n2 cs2]) blast+
next
  assume a: "json_get n3 (str ''changeType'') JNull \<noteq> Inr (JStr (str ''created''))"
  from psn_not_created [OF a, of P E s]
  show "trace (snd (process_single_notification P E n3 s)) = trace s"
    and "processing_emails (snd (process_single_notification P E n3 s)) = processing_emails s"
    by blast+
next
  assume a: "json_get n4 (str ''changeType'') JNull = Inr (JStr (str ''created'')) \<and>
    json_get n4 (str ''clientState'') (JStr []) = Inr (JStr cs4) \<and>
    startswith cs4 (str ''email_'') \<and>
    py_int P (replace cs4 (str ''email_'') []) = Some j \<and>
    get_email_by_id E j (world s) = (Inr (Some info), w4) \<and>
    j \<notin> processing_emails s"
  then have c: "client_state_id P cs4 = Some j" by (intro client_state_id_Some) blast+
  from a have 1: "json_get n4 (str ''changeType'') JNull = Inr (JStr (str ''created''))"
    and 2: "json_get n4 (str ''clientState'') (JStr []) = Inr (JStr cs4)"
    and 3: "get_email_by_id E j (world s) = (Inr (Some info), w4)"
    and 4: "j \<notin> processing_emails s"
    by blast+
  from 1 2 c 3 4
  show "snd (process_single_notification P E n4 s) =
        (fetch_new_mail E info
           (s\<lparr>world := w4, processing_emails := insert j (processing_emails s)\<rparr>))
        \<lparr>processing_emails :=
           processing_emails (fetch_new_mail E info
             (s\<lparr>world := w4, processing_emails := insert j (processing_emails s)\<rparr>)) - {j}\<rparr>"
    by (rule psn_created)
qed

theorem notification_routing_witness:
  "py_int ascii_python (replace (str ''email_-7'') (str ''email_'') []) = Some (- 7) \<and>
   py_int ascii_python (replace (str ''email_42'') (str ''email_'') []) = Some 42 \<and>
   snd (process_single_notification ascii_python sample_env
     (JObj [(str ''changeType'', JStr (str ''created'')), (str ''clientState'', JInt 7)])
     (sys_of world7)) = sys_of world7 \<and>
   process_single_notification ascii_python sample_env
     (notification_of (str ''created'') (str ''email_x'')) (sys_of world7) =
     (Inr (), sys_of world7) \<and>
   process_single_notification ascii_python sample_env
     (notification_of (str ''created'') (str ''email_8'')) (sys_of world7) =
     (Inr (), sys_of world7) \<and>
   trace (snd (process_single_notification ascii_python sample_env
            (notification_of (str ''updated'') (str ''email_7'')) (sys_of world7))) = [] \<and>
   trace (snd (process_single_notification ascii_python sample_env
            (notification_of (str ''created'') (str ''email_7'')) (sys_of world7))) =
     [Token_request (str ''rt'') (str ''cid'')]"
proof -
  let ?n0 = "JObj [(str ''changeType'', JStr (str ''created'')), (str ''clientState'', JInt 7)]"
  have 1: "py_int ascii_python (str ''-7'') = Some (- 7)"
    by (simp add: sample_simps)
  have 2: "(\<forall>c \<in> set (str ''42''). c_isdigit c) \<and> str ''42'' \<noteq> [] \<and>
      (int_max_str_digits ascii_python = 0 \<or>
       length (str ''42'') \<le> int_max_str_digits ascii_python)"
    by (simp add: sample_simps)
  have 3: "\<forall>cs. json_get ?n0 (str ''clientState'') (JStr []) = Inr (JStr cs) \<longrightarrow>
        \<not> startswith cs (str ''email_'') \<or>
        py_int ascii_python (replace cs (str ''email_'') []) = None"
    by (simp add: str_def)
  have 4: "json_get (notification_of (str ''created'') (str ''email_x''))
             (str ''clientState'') (JStr []) = Inr (JStr (str ''email_x'')) \<and>
           (\<not> startswith (str ''email_x'') (str ''email_'') \<or>
            py_int ascii_python (replace (str ''email_x'') (str ''email_'') []) = None)"
    by (simp add: sample_simps)
  have 5: "json_get (notification_of (str ''created'') (str ''email_8''))
             (str ''clientState'') (JStr []) = Inr (JStr (str ''email_8'')) \<and>
           startswith (str ''email_8'') (str ''email_'') \<and>
           py_int ascii_python (replace (str ''email_8'') (str ''email_'') []) = Some 8 \<and>
           get_email_by_id sample_env 8 (world (sys_of world7)) = (Inr None, world7)"
    by (simp add: sample_simps)
  have 6: "json_get (notification_of (str ''updated'') (str ''email_7''))
             (str ''changeType'') JNull \<noteq> Inr (JStr (str ''created''))"
    by (simp add: sample_simps)
  have 7: "json_get (notification_of (str ''created'') (str ''email_7''))
             (str ''changeType'') JNull = Inr (JStr (str ''created'')) \<and>
           json_get (notification_of (str ''created'') (str ''email_7''))
             (str ''clientState'') (JStr []) = Inr (JStr (str ''email_7'')) \<and>
           startswith (str ''email_7'') (str ''email_'') \<and>
           py_int ascii_python (replace (str ''email_7'') (str ''email_'') []) = Some 7 \<and>
           get_email_by_id sample_env 7 (world (sys_of world7)) = (Inr (Some mailbox7), world7) \<and>
           7 \<notin> processing_emails (sys_of world7)"
    by (simp add: sample_simps)
  have 8: "foldl (\<lambda>a c. a * 10 + (c - 48)) 0 (str ''42'') = (42::nat)"
    by (simp add: str_def)
  have 9: "str ''email_'' @ str ''-7'' = str ''email_-7''"
       "str ''email_'' @ str ''42'' = str ''email_42''"
    by (simp_all add: str_def)
  have 10: "sys_of world7 \<lparr>world := world7\<rparr> = sys_of world7" "trace (sys_of world7) = []"
    by (simp_all add: sys_of_def)
  have 11: "trace (fetch_new_mail sample_env mailbox7
      (sys_of world7\<lparr>processing_emails := insert 7 (processing_emails (sys_of world7))\<rparr>)) =
      [Token_request (str ''rt'') (str ''cid'')]"
    by (simp add: sample_simps fetch_new_mail_def get_new_access_token_def)
  have 12: "sys_of world7\<lparr>world := world7,
      processing_emails := insert 7 (processing_emails (sys_of world7))\<rparr> =
      sys_of world7\<lparr>processing_emails := insert 7 (processing_emails (sys_of world7))\<rparr>"
    by (simp add: sys_of_def)
  from notification_routing
    [of ascii_python "str ''-7''" "- 7" "str ''42''" ?n0 sample_env "sys_of world7"
        "notification_of (str ''created'') (str ''email_x'')" "str ''email_x''"
        "notification_of (str ''created'') (str ''email_8'')" "str ''email_8''" 8 world7
        "notification_of (str ''updated'') (str ''email_7'')"
        "notification_of (str ''created'') (str ''email_7'')" "str ''email_7''" 7
        mailbox7 world7]
    1 2 3 4 5 6 7
  show ?thesis unfolding 8 9 10 12 using 11 by simp
qed





lemma get_new_access_token_ok:
  assumes "post_token E rt cid (world s) = (Inr (JObj kv), w1)"
    and "map_of kv (str ''error'') = None"
    and "map_of kv (str ''access_token'') = Some tok"
    and "truthy tok"
  shows "get_new_access_token E rt cid s =
           (Some tok, s\<lparr>world := w1, trace := trace s @ [Token_request rt cid]\<rparr>)"
  using assms by (simp add: get_new_access_token_def call_def emit_def)

















section \<open>Verification: the pull check\<close>


lemma message_requests_append:
  "message_requests (xs @ ys) = message_requests xs @ message_requests ys"
  by (induction xs rule: message_requests.induct) simp_all

lemma get_messages_trace:
  "\<exists>msgs s'. get_messages E tok folder limit since s = (msgs, s') \<and>
     trace s' = trace s @
        [Messages_request tok folder (message_params limit (since_filter E since))]"
proof -
  let ?ps = "message_params limit (since_filter E since)"
  obtain r w where c: "get_folder_messages E tok folder ?ps (world s) = (r, w)"
    by (cases "get_folder_messages E tok folder ?ps (world s)") auto
  show ?thesis
  proof (cases r)
    case (Inl e)
    with c show ?thesis by (simp add: get_messages_def call_def emit_def Let_def)
  next
    case (Inr p)
    obtain status msgs where p: "p = (status, msgs)" by (cases p)
    with c Inr show ?thesis by (simp add: get_messages_def call_def emit_def Let_def)
  qed
qed

lemma save_mail_records_requests:
  "save_mail_records E eid rs n s = (n', s') \<Longrightarrow>
   \<exists>evs. trace s' = trace s @ evs \<and> message_requests evs = []"
proof (induction rs arbitrary: n s)
  case Nil
  then show ?case by simp
next
  case (Cons a rs)
  obtain rcd folder where a: "a = (rcd, folder)" by (cases a)
  obtain r w where c: "add_mail_record E eid rcd folder (world s) = (r, w)"
    by (cases "add_mail_record E eid rcd folder (world s)") auto
  define s1 where "s1 = emit (Add_mail_record eid rcd folder r) (s\<lparr>world := w\<rparr>)"
  from Cons.prems a c obtain n1 where "save_mail_records E eid rs n1 s1 = (n', s')"
    by (simp add: call_def s1_def)
  from Cons.IH [OF this] obtain evs where
    "trace s' = trace s1 @ evs" "message_requests evs = []" by blast
  then show ?case
    by (intro exI [of _ "Add_mail_record eid rcd folder r # evs"])
      (simp add: s1_def emit_def)
qed

lemma update_check_time_requests:
  "\<exists>u s'. call (update_check_time E eid) (emit (Update_check_time eid) s) = (u, s') \<and>
     trace s' = trace s @ [Update_check_time eid]"
  by (cases "update_check_time E eid (world s)") (simp add: call_def emit_def)

text \<open>
  C5 (amended). When a Graph pull check runs on a mailbox with credentials and the token
  refresh succeeds, it issues two message-list requests, for \<open>inbox\<close> and for
  \<open>junkemail\<close>, each with \<open>$top=100\<close>. When the mailbox has zero stored messages, both
  are issued without a \<open>$filter\<close>. When it has at least one stored message and its
  \<open>last_check_time\<close> is set (neither \<open>NULL\<close> nor empty), both carry
  \<open>$filter=receivedDateTime ge\<close> followed by the \<open>last_check_time\<close> in ISO form; when
  \<open>last_check_time\<close> is not set, they are issued without a \<open>$filter\<close> as well.
\<close>

theorem pull_check_filter:
  assumes count: "get_mail_count_by_email_id E (id' info) (world s) = (Inr n, w0)"
    and creds: "refresh_token info = Some rt" "rt \<noteq> []" "client_id info = Some cid" "cid \<noteq> []"
    and token: "post_token E rt cid w0 = (Inr (JObj kv), w1)"
      "map_of kv (str ''error'') = None"
      "map_of kv (str ''access_token'') = Some tok" "truthy tok"
  shows "message_requests (trace (snd (check_mail E info s))) =
     message_requests (trace s) @
     [(str ''inbox'',
       message_params 100
         (if n = 0 \<or> falsy (last_check_time info) then None
          else Some (str ''receivedDateTime ge '' @ since_str E (the (last_check_time info))))),
      (str ''junkemail'',
       message_params 100
         (if n = 0 \<or> falsy (last_check_time info) then None
          else Some (str ''receivedDateTime ge '' @ since_str E (the (last_check_time info)))))]"
proof -
  define lct where "lct = (if n = 0 then None else last_check_time info)"
  define flt where "flt = (if n = 0 \<or> falsy (last_check_time info) then None
          else Some (str ''receivedDateTime ge '' @ since_str E (the (last_check_time info))))"
  have flt: "since_filter E lct = flt"
    by (simp add: since_filter_def lct_def flt_def falsy_def)
  define s0 where "s0 = s\<lparr>world := w0\<rparr>"
  have fs: "is_first_sync E (id' info) s = (n = 0, s0)"
    using count by (simp add: is_first_sync_def call_def s0_def)
  define s1 where "s1 = s0\<lparr>world := w1, trace := trace s0 @ [Token_request rt cid]\<rparr>"
  have tk: "get_new_access_token E rt cid s0 = (Some tok, s1)"
    unfolding s1_def using token by (intro get_new_access_token_ok) (simp_all add: s0_def)
  obtain u s2 where ut: "call (update_email_token E (id' info) tok)
      (emit (Update_email_token (id' info) tok) s1) = (u, s2)"
    and s2: "trace s2 = trace s1 @ [Update_email_token (id' info) tok]"
    by (cases "update_email_token E (id' info) tok (world s1)") (simp add: call_def emit_def)
  from get_messages_trace [of E tok "str ''inbox''" 100 lct s2]
  obtain inbox s3 where i: "fetch_emails E tok (str ''inbox'') lct s2 = (inbox, s3)"
    and s3: "trace s3 = trace s2 @ [Messages_request tok (str ''inbox'') (message_params 100 flt)]"
    unfolding flt fetch_emails_def by auto
  from get_messages_trace [of E tok "str ''junkemail''" 100 lct s3]
  obtain junk s4 where j: "fetch_emails E tok (str ''junkemail'') lct s3 = (junk, s4)"
    and s4: "trace s4 = trace s3 @
      [Messages_request tok (str ''junkemail'') (message_params 100 flt)]"
    unfolding flt fetch_emails_def by auto
  define recs where "recs = map (\<lambda>r. (r, str ''INBOX'')) inbox @ map (\<lambda>r. (r, str ''JUNK'')) junk"
  have "\<exists>evs. trace (snd (check_mail E info s)) = trace s4 @ evs \<and> message_requests evs = []"
  proof (cases "inbox = [] \<and> junk = []")
    case True
    from update_check_time_requests [of E "id' info" s4] obtain u' s5 where
      "call (update_check_time E (id' info)) (emit (Update_check_time (id' info)) s4) = (u', s5)"
      "trace s5 = trace s4 @ [Update_check_time (id' info)]"
      by blast
    with True fs creds tk ut i j
    have "trace (snd (check_mail E info s)) = trace s4 @ [Update_check_time (id' info)]"
      by (simp add: check_mail_def Let_def falsy_def lct_def)
    then show ?thesis by simp
  next
    case False
    then have ne: "(inbox = [] \<and> junk = []) = False" by simp
    obtain k s5 where sv: "save_mail_records E (id' info) recs 0 s4 = (k, s5)"
      by (cases "save_mail_records E (id' info) recs 0 s4") auto
    from save_mail_records_requests [OF sv] obtain evs where
      evs: "trace s5 = trace s4 @ evs" "message_requests evs = []" by blast
    from update_check_time_requests [of E "id' info" s5] obtain u' s6 where
      "call (update_check_time E (id' info)) (emit (Update_check_time (id' info)) s5) = (u', s6)"
      "trace s6 = trace s5 @ [Update_check_time (id' info)]"
      by blast
    with fs creds tk ut i j sv [unfolded recs_def]
    have "trace (snd (check_mail E info s)) = trace s5 @ [Update_check_time (id' info)]"
      by (simp add: check_mail_def Let_def falsy_def lct_def ne)
    with evs show ?thesis
      by (intro exI [of _ "evs @ [Update_check_time (id' info)]"])
        (simp add: message_requests_append)
  qed
  then obtain evs where
    "trace (snd (check_mail E info s)) = trace s4 @ evs" "message_requests evs = []" by blast
  then show ?thesis
    unfolding flt_def [symmetric]
    by (simp add: message_requests_append s4 s3 s2 s1_def s0_def)
qed



text \<open>
  C5 (as stated: fails). Mailbox 7 has one stored message (an imported one) and was
  never checked: its \<open>last_check_time\<close> is \<open>NULL\<close>. The pull check issues both requests
  without a \<open>$filter\<close>.
\<close>

theorem pull_check_filter_counterexample:
  "fst (get_mail_count_by_email_id sample_env 7 world7_imported) = Inr 1 \<and>
   message_requests (trace (snd (check_mail sample_env mailbox7 (sys_of world7_imported)))) =
     [(str ''inbox'', message_params 100 None), (str ''junkemail'', message_params 100 None)]"
  by (simp add: check_mail_def is_first_sync_def fetch_emails_def get_messages_def
      since_filter_def get_new_access_token_def sample_simps world7_imported_def token_ok_def
      sw_mails_of_def sw_update_check_time_def)

theorem pull_check_filter_witness:
  "message_requests (trace (snd (check_mail sample_env mailbox7_checked
      (sys_of world7_checked)))) =
     [(str ''inbox'',
       message_params 100 (Some (str ''receivedDateTime ge 2026-01-05T18:58:09Z''))),
      (str ''junkemail'',
       message_params 100 (Some (str ''receivedDateTime ge 2026-01-05T18:58:09Z'')))]"
proof -
  have 1: "get_mail_count_by_email_id sample_env (id' mailbox7_checked)
      (world (sys_of world7_checked)) = (Inr 1, world7_checked)"
    by (simp add: sample_simps world7_checked_def world7_imported_def mailbox7_checked_def
        sw_mails_of_def)
  have 2: "refresh_token mailbox7_checked = Some (str ''rt'')" "str ''rt'' \<noteq> []"
    "client_id mailbox7_checked = Some (str ''cid'')" "str ''cid'' \<noteq> []"
    by (simp_all add: mailbox7_checked_def mailbox7_def str_def)
  have 3: "post_token sample_env (str ''rt'') (str ''cid'') world7_checked =
      (Inr (JObj [(str ''access_token'', JStr (str ''at''))]),
       world7_checked\<lparr>sw_token_replies := []\<rparr>)"
    "map_of [(str ''access_token'', JStr (str ''at''))] (str ''error'') = None"
    "map_of [(str ''access_token'', JStr (str ''at''))] (str ''access_token'') =
       Some (JStr (str ''at''))"
    "truthy (JStr (str ''at''))"
    by (simp_all add: sample_env_def world7_checked_def world7_imported_def world7_def
        token_ok_def str_def)
  have 4: "falsy (last_check_time mailbox7_checked) = False"
    by (simp add: mailbox7_checked_def falsy_def str_def)
  have 5: "str ''receivedDateTime ge '' @
      since_str sample_env (the (last_check_time mailbox7_checked)) =
      str ''receivedDateTime ge 2026-01-05T18:58:09Z''"
    by (simp add: mailbox7_checked_def since_str_def sample_env_def sw_strptime_iso_def str_def)
  have 6: "trace (sys_of world7_checked) = []" by (simp add: sys_of_def)
  from pull_check_filter [OF 1 2 3]
  show ?thesis unfolding 4 5 6 by simp
qed

section \<open>Verification: bulk subscription creation\<close>

text \<open>
  C7 (the code at the failing input). Two Outlook mailboxes without subscriptions; the
  first create request is answered 429 with \<open>Retry-After: 30\<close>. The batch sleeps its
  usual 2 seconds and sends the create request for the second mailbox: nothing waits 30
  seconds, and the first mailbox is counted as failed and not tried again.
\<close>

theorem throttled_batch_trace:
  "trace (snd (create_subscriptions_for_all_outlook_emails sample_env
            (str ''https://host/api/graph/webhook'') 50 60 (sys_of world_two))) =
     [Token_request (str ''rt'') (str ''cid''),
      Subscription_request (JStr (str ''at'')) (subscription_payload 1),
      Sleep 2,
      Token_request (str ''rt'') (str ''cid''),
      Subscription_request (JStr (str ''at'')) (subscription_payload 2),
      Add_subscription 2
        \<lparr> subscription_id = JStr (str ''sub-2''), expiration_time = str ''2026-01-09 12:00:05'' \<rparr>
        (str ''me/mailFolders('Inbox')/messages''),
      Sleep 2] \<and>
   fst (create_subscriptions_for_all_outlook_emails sample_env
            (str ''https://host/api/graph/webhook'') 50 60 (sys_of world_two)) =
     Some \<lparr> created = 1, failed = 1, skipped = 0 \<rparr>"
  by (simp add: create_subscriptions_for_all_outlook_emails_def create_subscription_def
      get_new_access_token_def do_sleep_def MAX_EXPIRATION_MINUTES_def
      world_two_def outlook_mailbox_def throttled_30_def created_201_def token_ok_def
      subscription_payload_def str_of_int_def
      str_def sys_of_def sample_env_def call_def emit_def falsy_def Let_def)

theorem throttled_batch_trace_witness:
  "take 4 (drop 1 (trace (snd (create_subscriptions_for_all_outlook_emails sample_env
            (str ''https://host/api/graph/webhook'') 50 60 (sys_of world_two))))) =
     [Subscription_request (JStr (str ''at'')) (subscription_payload 1),
      Sleep 2,
      Token_request (str ''rt'') (str ''cid''),
      Subscription_request (JStr (str ''at'')) (subscription_payload 2)]"
  using throttled_batch_trace by simp

section \<open>Verification: the in-flight sets\<close>


lemma count_list_pos_iff: "0 < count_list xs x \<longleftrightarrow> x \<in> set xs"
  using count_list_0_iff [of xs x] by auto













section \<open>Verification: the webhook endpoint\<close>

lemma str_validationToken_neq [simp]: "str ''validationToken'' \<noteq> []"
  by (simp add: str_def)

text \<open>
  C6 (as stated: fails). A \<open>GET\<close> request with \<open>validationToken=abc\<close> does not reach the
  endpoint, which is registered for \<open>POST\<close> only: it is served by \<open>serve_frontend\<close>, here
  with the page \<open>index.html\<close> as \<open>text/html\<close>, and the token is nowhere in the answer. A
  \<open>POST\<close> with an empty token is taken for a notification delivery and answered 202.
\<close>

theorem validation_get_counterexample:
  "route_graph_webhook sample_dist True
     \<lparr> req_method = GET, args = [(str ''validationToken'', str ''abc'')],
       json_body = Inl ValueError \<rparr> =
     Frontend \<lparr> status = 200, content_type = str ''text/html; charset=utf-8'',
                body = str ''<!doctype html><div id=app></div>'' \<rparr> \<and>
   route_graph_webhook sample_dist True
     \<lparr> req_method = POST, args = [(str ''validationToken'', [])],
       json_body = Inl ValueError \<rparr> = View (accepted_202, None)"
  by (simp add: route_graph_webhook_def graph_webhook_endpoint_def falsy_def
      serve_frontend_def sample_dist_def str_def)

text \<open>
  C6 (amended). A \<open>POST\<close> request to the webhook endpoint whose first \<open>validationToken\<close>
  query parameter is a non-empty \<open>T\<close> is answered with status 200, \<open>Content-Type\<close>
  \<open>text/plain\<close> and body exactly \<open>T\<close>, and no notification thread is started (whether or
  not the handler is initialised); \<open>handle_validation\<close> returns the token unchanged. A
  \<open>POST\<close> without the parameter, or with an empty one, is answered 202. A \<open>GET\<close> or
  \<open>HEAD\<close> request is answered by \<open>serve_frontend\<close>: with the file \<open>api/graph/webhook\<close> of
  the frontend build when there is one, else with \<open>index.html\<close>, whatever its query
  parameters are.
\<close>

theorem validation_handshake_post:
  "(req_method req = POST \<and> map_of (args req) (str ''validationToken'') = Some T \<and> T \<noteq> [] \<longrightarrow>
      route_graph_webhook F initialised req =
        View (\<lparr> status = 200, content_type = str ''text/plain'', body = T \<rparr>, None)) \<and>
   handle_validation T = T \<and>
   (req_method req = POST \<and>
    (map_of (args req) (str ''validationToken'') = None \<or>
     map_of (args req) (str ''validationToken'') = Some []) \<longrightarrow>
      (\<exists>started. route_graph_webhook F initialised req = View (accepted_202, started))) \<and>
   (req_method req = GET \<or> req_method req = HEAD \<longrightarrow>
      route_graph_webhook F initialised req =
        Frontend (send_from_directory F
          (if isfile F (str ''api/graph/webhook'') then str ''api/graph/webhook''
           else str ''index.html'')))"
proof (intro conjI impI)
  assume "req_method req = POST \<and> map_of (args req) (str ''validationToken'') = Some T \<and>
    T \<noteq> []"
  then show "route_graph_webhook F initialised req =
      View (\<lparr> status = 200, content_type = str ''text/plain'', body = T \<rparr>, None)"
    by (simp add: route_graph_webhook_def graph_webhook_endpoint_def falsy_def)
next
  show "handle_validation T = T" by (simp add: handle_validation_def)
next
  assume "req_method req = POST \<and>
    (map_of (args req) (str ''validationToken'') = None \<or>
     map_of (args req) (str ''validationToken'') = Some [])"
  then show "\<exists>started. route_graph_webhook F initialised req = View (accepted_202, started)"
    by (auto simp: route_graph_webhook_def graph_webhook_endpoint_def falsy_def
        split: sum.splits)
next
  assume "req_method req = GET \<or> req_method req = HEAD"
  moreover have "str ''api/graph/webhook'' \<noteq> []" "str ''api/graph/webhook'' \<noteq> str ''/''"
    by (simp_all add: str_def)
  ultimately show "route_graph_webhook F initialised req =
      Frontend (send_from_directory F
        (if isfile F (str ''api/graph/webhook'') then str ''api/graph/webhook''
         else str ''index.html''))"
    by (auto simp: route_graph_webhook_def serve_frontend_def)
qed

theorem validation_handshake_post_witness:
  "route_graph_webhook sample_dist False
     \<lparr> req_method = POST, args = [(str ''validationToken'', str ''abc'')],
       json_body = Inl ValueError \<rparr> =
     View (\<lparr> status = 200, content_type = str ''text/plain'', body = str ''abc'' \<rparr>, None) \<and>
   route_graph_webhook sample_dist False
     \<lparr> req_method = GET, args = [(str ''validationToken'', str ''abc'')],
       json_body = Inl ValueError \<rparr> =
     Frontend (send_from_directory sample_dist (str ''index.html''))"
proof -
  have a: "str ''abc'' \<noteq> []" by (simp add: str_def)
  have b: "\<not> isfile sample_dist (str ''api/graph/webhook'')"
    by (simp add: sample_dist_def str_def)
  show ?thesis
    using validation_handshake_post
      [of "\<lparr> req_method = POST, args = [(str ''validationToken'', str ''abc'')],
            json_body = Inl ValueError \<rparr>" "str ''abc''" sample_dist False]
      validation_handshake_post
      [of "\<lparr> req_method = GET, args = [(str ''validationToken'', str ''abc'')],
            json_body = Inl ValueError \<rparr>" "str ''abc''" sample_dist False] a b
    by simp
qed

section \<open>Verification: the bulk import\<close>

text \<open>What one round of the loop does to the report, to the trace and to the counts:
  at most one entry is added, under the number of the line.\<close>

lemma length_4_cases:
  "length xs = 4 \<Longrightarrow> \<exists>a b c d. xs = [a, b, c, d]"
  by (cases xs; simp; rename_tac ys; case_tac ys; simp; rename_tac zs; case_tac zs; simp;
      rename_tac ws; case_tac ws; simp)

lemma import_line_effect:
  assumes "import_line P E uid kind i raw acc s = (acc', s')"
  shows "\<exists>ds evs. failed_details acc' = failed_details acc @ ds \<and>
      trace s' = trace s @ evs \<and> total_lines acc' = total_lines acc \<and>
      (\<forall>d \<in> set ds. line_no d = i + 1) \<and>
      (strip P raw = [] \<longrightarrow> ds = []) \<and>
      (strip P raw \<noteq> [] \<and> length (split (strip P raw) (str ''----'')) \<noteq> 4 \<longrightarrow>
           ds = [\<lparr> line_no = i + 1, line_content = strip P raw,
                   why = Format_error_need_4_fields \<rparr>]) \<and>
      (length (split (strip P raw) (str ''----'')) = 4 \<and>
       [] \<in> set (split (strip P raw) (str ''----'')) \<longrightarrow>
           ds = [\<lparr> line_no = i + 1, line_content = strip P raw, why = Blank_field \<rparr>]) \<and>
      (\<forall>a p c r. split (strip P raw) (str ''----'') = [a, p, c, r] \<and>
           a \<noteq> [] \<and> p \<noteq> [] \<and> c \<noteq> [] \<and> r \<noteq> [] \<longrightarrow>
           evs = [Add_email uid a p c r kind])"
proof (cases "strip P raw = []")
  case True
  with assms have "acc' = acc" "s' = s" by (simp_all add: import_line_def)
  with True show ?thesis
    by (intro exI [of _ "[]"]) (simp add: split_def)
next
  case ne: False
  show ?thesis
  proof (cases "length (split (strip P raw) (str ''----'')) = 4")
    case False
    then have "\<nexists>a p c r. split (strip P raw) (str ''----'') = [a, p, c, r]" by auto
    with assms ne have
      "acc' = acc\<lparr>failed_details := failed_details acc @
         [\<lparr> line_no = i + 1, line_content = strip P raw,
            why = Format_error_need_4_fields \<rparr>]\<rparr>" "s' = s"
      by (auto simp: import_line_def Let_def split: list.splits)
    with ne False show ?thesis
      by (intro exI [of _ "[\<lparr> line_no = i + 1, line_content = strip P raw,
            why = Format_error_need_4_fields \<rparr>]"] exI [of _ "[]"]) auto
  next
    case True
    from length_4_cases [OF True] obtain a p c r where
      sp: "split (strip P raw) (str ''----'') = [a, p, c, r]" by blast
    show ?thesis
    proof (cases "a = [] \<or> p = [] \<or> c = [] \<or> r = []")
      case blank: True
      with assms ne sp have
        "acc' = acc\<lparr>failed_details := failed_details acc @
           [\<lparr> line_no = i + 1, line_content = strip P raw, why = Blank_field \<rparr>]\<rparr>" "s' = s"
        by (simp_all add: import_line_def Let_def)
      with ne sp blank show ?thesis
        by (intro exI [of _ "[\<lparr> line_no = i + 1, line_content = strip P raw,
              why = Blank_field \<rparr>]"] exI [of _ "[]"]) auto
    next
      case full: False
      obtain res w where
        c: "add_email E uid a p c r kind (world s) = (res, w)"
        by (cases "add_email E uid a p c r kind (world s)") auto
      define s1 where "s1 = s\<lparr>world := w, trace := trace s @ [Add_email uid a p c r kind]\<rparr>"
      have cc: "call (add_email E uid a p c r kind) (emit (Add_email uid a p c r kind) s) =
          (res, s1)"
        using c by (simp add: call_def emit_def s1_def)
      have s': "s' = s1"
        using assms ne sp full cc
        by (auto simp: import_line_def Let_def split: sum.splits if_splits)
      have acc': "\<exists>ds. failed_details acc' = failed_details acc @ ds \<and>
            total_lines acc' = total_lines acc \<and> (\<forall>d \<in> set ds. line_no d = i + 1)"
      proof (cases res)
        case (Inl e)
        with assms ne sp full cc have
          "acc' = acc\<lparr>failed_details := failed_details acc @
             [\<lparr> line_no = i + 1, line_content = strip P raw,
                why = Import_exception e \<rparr>]\<rparr>"
          by (simp add: import_line_def Let_def)
        then show ?thesis by simp
      next
        case (Inr ok)
        show ?thesis
        proof (cases ok)
          case True
          with Inr assms ne sp full cc have
            "acc' = acc\<lparr>success_count := success_count acc + 1\<rparr>"
            by (simp add: import_line_def Let_def)
          then show ?thesis by simp
        next
          case False
          with Inr assms ne sp full cc have
            "acc' = acc\<lparr>failed_details := failed_details acc @
               [\<lparr> line_no = i + 1, line_content = strip P raw, why = Address_exists \<rparr>]\<rparr>"
            by (simp add: import_line_def Let_def)
          then show ?thesis by simp
        qed
      qed
      from acc' obtain ds where ds: "failed_details acc' = failed_details acc @ ds"
        "total_lines acc' = total_lines acc" "\<forall>d \<in> set ds. line_no d = i + 1" by blast
      show ?thesis
        using ds ne sp s' full
        by (intro exI [of _ ds] exI [of _ "[Add_email uid a p c r kind]"])
          (auto simp: s1_def)
    qed
  qed
qed

lemma import_loop_effect:
  "import_loop P E uid kind i lines acc s = (acc', s') \<Longrightarrow>
   \<exists>ds evs. failed_details acc' = failed_details acc @ ds \<and>
      trace s' = trace s @ evs \<and> total_lines acc' = total_lines acc \<and>
      (\<forall>d \<in> set ds. i < line_no d \<and> line_no d \<le> i + length lines) \<and>
      (\<forall>k < length lines.
         (strip P (lines ! k) = [] \<longrightarrow> (\<forall>d \<in> set ds. line_no d \<noteq> i + k + 1)) \<and>
         (strip P (lines ! k) \<noteq> [] \<and>
          length (split (strip P (lines ! k)) (str ''----'')) \<noteq> 4 \<longrightarrow>
            \<lparr> line_no = i + k + 1, line_content = strip P (lines ! k),
              why = Format_error_need_4_fields \<rparr> \<in> set ds) \<and>
         (length (split (strip P (lines ! k)) (str ''----'')) = 4 \<and>
          [] \<in> set (split (strip P (lines ! k)) (str ''----'')) \<longrightarrow>
            \<lparr> line_no = i + k + 1, line_content = strip P (lines ! k),
              why = Blank_field \<rparr> \<in> set ds) \<and>
         (\<forall>a p c r. split (strip P (lines ! k)) (str ''----'') = [a, p, c, r] \<and>
            a \<noteq> [] \<and> p \<noteq> [] \<and> c \<noteq> [] \<and> r \<noteq> [] \<longrightarrow>
            Add_email uid a p c r kind \<in> set evs))"
proof (induction lines arbitrary: i acc s)
  case Nil
  then show ?case by simp
next
  case (Cons raw rest)
  obtain acc1 s1 where l: "import_line P E uid kind i raw acc s = (acc1, s1)"
    by (cases "import_line P E uid kind i raw acc s") auto
  with Cons.prems have r: "import_loop P E uid kind (i + 1) rest acc1 s1 = (acc', s')"
    by simp
  from import_line_effect [OF l] obtain ds1 evs1 where
    h1: "failed_details acc1 = failed_details acc @ ds1" "trace s1 = trace s @ evs1"
      "total_lines acc1 = total_lines acc" "\<forall>d \<in> set ds1. line_no d = i + 1"
    and h1b: "strip P raw = [] \<longrightarrow> ds1 = []"
    and h1f: "strip P raw \<noteq> [] \<and> length (split (strip P raw) (str ''----'')) \<noteq> 4 \<longrightarrow>
           ds1 = [\<lparr> line_no = i + 1, line_content = strip P raw,
                   why = Format_error_need_4_fields \<rparr>]"
    and h1e: "length (split (strip P raw) (str ''----'')) = 4 \<and>
       [] \<in> set (split (strip P raw) (str ''----'')) \<longrightarrow>
           ds1 = [\<lparr> line_no = i + 1, line_content = strip P raw, why = Blank_field \<rparr>]"
    and h1a: "\<forall>a p c r. split (strip P raw) (str ''----'') = [a, p, c, r] \<and>
           a \<noteq> [] \<and> p \<noteq> [] \<and> c \<noteq> [] \<and> r \<noteq> [] \<longrightarrow>
           evs1 = [Add_email uid a p c r kind]"
    by blast
  from Cons.IH [OF r] obtain ds2 evs2 where
    h2: "failed_details acc' = failed_details acc1 @ ds2" "trace s' = trace s1 @ evs2"
      "total_lines acc' = total_lines acc1"
      "\<forall>d \<in> set ds2. i + 1 < line_no d \<and> line_no d \<le> i + 1 + length rest"
    and h2k: "\<forall>k < length rest.
         (strip P (rest ! k) = [] \<longrightarrow> (\<forall>d \<in> set ds2. line_no d \<noteq> i + 1 + k + 1)) \<and>
         (strip P (rest ! k) \<noteq> [] \<and>
          length (split (strip P (rest ! k)) (str ''----'')) \<noteq> 4 \<longrightarrow>
            \<lparr> line_no = i + 1 + k + 1, line_content = strip P (rest ! k),
              why = Format_error_need_4_fields \<rparr> \<in> set ds2) \<and>
         (length (split (strip P (rest ! k)) (str ''----'')) = 4 \<and>
          [] \<in> set (split (strip P (rest ! k)) (str ''----'')) \<longrightarrow>
            \<lparr> line_no = i + 1 + k + 1, line_content = strip P (rest ! k),
              why = Blank_field \<rparr> \<in> set ds2) \<and>
         (\<forall>a p c r. split (strip P (rest ! k)) (str ''----'') = [a, p, c, r] \<and>
            a \<noteq> [] \<and> p \<noteq> [] \<and> c \<noteq> [] \<and> r \<noteq> [] \<longrightarrow>
            Add_email uid a p c r kind \<in> set evs2)"
    by blast
  have a: "failed_details acc' = failed_details acc @ (ds1 @ ds2)"
    and b: "trace s' = trace s @ (evs1 @ evs2)"
    and c: "total_lines acc' = total_lines acc"
    using h1 h2 by simp_all
  have d: "\<forall>d \<in> set (ds1 @ ds2). i < line_no d \<and> line_no d \<le> i + length (raw # rest)"
    using h1(4) h2(4) by auto
  have e: "\<forall>k < length (raw # rest).
         (strip P ((raw # rest) ! k) = [] \<longrightarrow>
            (\<forall>d \<in> set (ds1 @ ds2). line_no d \<noteq> i + k + 1)) \<and>
         (strip P ((raw # rest) ! k) \<noteq> [] \<and>
          length (split (strip P ((raw # rest) ! k)) (str ''----'')) \<noteq> 4 \<longrightarrow>
            \<lparr> line_no = i + k + 1, line_content = strip P ((raw # rest) ! k),
              why = Format_error_need_4_fields \<rparr> \<in> set (ds1 @ ds2)) \<and>
         (length (split (strip P ((raw # rest) ! k)) (str ''----'')) = 4 \<and>
          [] \<in> set (split (strip P ((raw # rest) ! k)) (str ''----'')) \<longrightarrow>
            \<lparr> line_no = i + k + 1, line_content = strip P ((raw # rest) ! k),
              why = Blank_field \<rparr> \<in> set (ds1 @ ds2)) \<and>
         (\<forall>a p c r. split (strip P ((raw # rest) ! k)) (str ''----'') = [a, p, c, r] \<and>
            a \<noteq> [] \<and> p \<noteq> [] \<and> c \<noteq> [] \<and> r \<noteq> [] \<longrightarrow>
            Add_email uid a p c r kind \<in> set (evs1 @ evs2))"
  proof (intro allI impI)
    fix k assume "k < length (raw # rest)"
    show "(strip P ((raw # rest) ! k) = [] \<longrightarrow>
            (\<forall>d \<in> set (ds1 @ ds2). line_no d \<noteq> i + k + 1)) \<and>
         (strip P ((raw # rest) ! k) \<noteq> [] \<and>
          length (split (strip P ((raw # rest) ! k)) (str ''----'')) \<noteq> 4 \<longrightarrow>
            \<lparr> line_no = i + k + 1, line_content = strip P ((raw # rest) ! k),
              why = Format_error_need_4_fields \<rparr> \<in> set (ds1 @ ds2)) \<and>
         (length (split (strip P ((raw # rest) ! k)) (str ''----'')) = 4 \<and>
          [] \<in> set (split (strip P ((raw # rest) ! k)) (str ''----'')) \<longrightarrow>
            \<lparr> line_no = i + k + 1, line_content = strip P ((raw # rest) ! k),
              why = Blank_field \<rparr> \<in> set (ds1 @ ds2)) \<and>
         (\<forall>a p c r. split (strip P ((raw # rest) ! k)) (str ''----'') = [a, p, c, r] \<and>
            a \<noteq> [] \<and> p \<noteq> [] \<and> c \<noteq> [] \<and> r \<noteq> [] \<longrightarrow>
            Add_email uid a p c r kind \<in> set (evs1 @ evs2))"
    proof (cases k)
      case 0
      have "\<forall>d \<in> set ds2. line_no d \<noteq> i + 1" using h2(4) by auto
      with 0 h1b h1f h1e h1a show ?thesis by auto
    next
      case (Suc j)
      with \<open>k < length (raw # rest)\<close> have j: "j < length rest" by simp
      have "\<forall>d \<in> set ds1. line_no d \<noteq> i + 1 + j + 1" using h1(4) by auto
      with h2k [rule_format, OF j] Suc show ?thesis by auto
    qed
  qed
  from a b c d e show ?case by blast
qed

text \<open>
  C9 (the claim as stated fails). \<open>user@gmail.com----secret----gmail\<close>, the line that
  \<open>export_emails\<close> writes for a Gmail mailbox, is of the form
  \<open>email----password----<kind>\<close>. \<open>import_emails\<close> with \<open>mail_type\<close> \<open>gmail\<close> does
  not accept it: it is reported as line 1 with the reason "format error, 4 fields
  needed", nothing is added to the store and no success is counted.
\<close>

theorem import_three_fields_counterexample:
  "export_line gmail_mailbox = str ''user@gmail.com----secret----gmail'' \<and>
   import_emails ascii_python sample_env 1 (export_line gmail_mailbox) (str ''gmail'')
     (sys_of empty_world) =
     (Some \<lparr> total_lines = 1, success_count = 0,
             failed_details =
               [\<lparr> line_no = 1, line_content = str ''user@gmail.com----secret----gmail'',
                  why = Format_error_need_4_fields \<rparr>] \<rparr>,
      sys_of empty_world)"
  by (simp add: import_emails_def import_line_def export_line_def gmail_mailbox_def
      printed_def split_def strip_def startswith_def
      str_def ascii_python_def sys_of_def)

text \<open>
  C9 (amended). Of the lines of the stripped data, numbered from 1, each one stripped:
  a blank line leaves no entry in the report; a line that does not split at \<open>----\<close>
  into exactly four fields is reported under its number with the reason "4 fields
  needed", whatever the \<open>mail_type\<close> of the request; a line of four fields with an
  empty one is reported under its number with the reason "blank field"; and a line of
  four non-empty fields is handed to \<open>db.add_email\<close> with the \<open>mail_type\<close> of the
  request. \<open>total\<close> is the number of lines, the blank ones among them.
\<close>

theorem import_lines:
  assumes "import_emails P E uid data kind s = (Some r, s')"
    and "k < length (split (strip P data) [10])"
    and "line = strip P (split (strip P data) [10] ! k)"
  shows "total_lines r = length (split (strip P data) [10]) \<and>
     (line = [] \<longrightarrow> k + 1 \<notin> line_no ` set (failed_details r)) \<and>
     (line \<noteq> [] \<and> length (split line (str ''----'')) \<noteq> 4 \<longrightarrow>
        \<lparr> line_no = k + 1, line_content = line, why = Format_error_need_4_fields \<rparr>
          \<in> set (failed_details r)) \<and>
     (length (split line (str ''----'')) = 4 \<and> [] \<in> set (split line (str ''----'')) \<longrightarrow>
        \<lparr> line_no = k + 1, line_content = line, why = Blank_field \<rparr>
          \<in> set (failed_details r)) \<and>
     (\<forall>address pw client refresh_tok.
        split line (str ''----'') = [address, pw, client, refresh_tok] \<and>
        address \<noteq> [] \<and> pw \<noteq> [] \<and> client \<noteq> [] \<and> refresh_tok \<noteq> [] \<longrightarrow>
        Add_email uid address pw client refresh_tok kind
          \<in> set (drop (length (trace s)) (trace s')))"
proof -
  define lines where "lines = split (strip P data) [10]"
  define acc where
    "acc = \<lparr> total_lines = length lines, success_count = 0, failed_details = [] \<rparr>"
  from assms(1) have run: "import_loop P E uid kind 0 lines acc s = (r, s')"
    by (auto simp: import_emails_def Let_def lines_def acc_def split: if_splits prod.splits)
  from import_loop_effect [OF run] obtain ds evs where
    a: "failed_details r = failed_details acc @ ds" "trace s' = trace s @ evs"
      "total_lines r = total_lines acc"
    and b: "\<forall>k < length lines.
         (strip P (lines ! k) = [] \<longrightarrow> (\<forall>d \<in> set ds. line_no d \<noteq> 0 + k + 1)) \<and>
         (strip P (lines ! k) \<noteq> [] \<and>
          length (split (strip P (lines ! k)) (str ''----'')) \<noteq> 4 \<longrightarrow>
            \<lparr> line_no = 0 + k + 1, line_content = strip P (lines ! k),
              why = Format_error_need_4_fields \<rparr> \<in> set ds) \<and>
         (length (split (strip P (lines ! k)) (str ''----'')) = 4 \<and>
          [] \<in> set (split (strip P (lines ! k)) (str ''----'')) \<longrightarrow>
            \<lparr> line_no = 0 + k + 1, line_content = strip P (lines ! k),
              why = Blank_field \<rparr> \<in> set ds) \<and>
         (\<forall>a p c r. split (strip P (lines ! k)) (str ''----'') = [a, p, c, r] \<and>
            a \<noteq> [] \<and> p \<noteq> [] \<and> c \<noteq> [] \<and> r \<noteq> [] \<longrightarrow>
            Add_email uid a p c r kind \<in> set evs)"
    by blast
  have fd: "failed_details r = ds" using a(1) by (simp add: acc_def)
  have ev: "drop (length (trace s)) (trace s') = evs" using a(2) by simp
  have tl: "total_lines r = length lines" using a(3) by (simp add: acc_def)
  from assms(2) have k: "k < length lines" by (simp add: lines_def)
  have l: "line = strip P (lines ! k)" using assms(3) by (simp add: lines_def)
  from b [rule_format, OF k] show ?thesis
    unfolding fd ev l tl lines_def [symmetric] by auto
qed

theorem import_lines_witness:
  "\<exists>r s'. import_emails ascii_python sample_env 1
       (str ''a@x.com----pw----cid----tok'' @ [10, 10] @
        str ''user@gmail.com----secret----gmail'' @ [10] @ str ''b@x.com--------cid----tok'')
       (str ''gmail'') (sys_of empty_world) = (Some r, s') \<and>
     total_lines r = 4 \<and>
     2 \<notin> line_no ` set (failed_details r) \<and>
     \<lparr> line_no = 3, line_content = str ''user@gmail.com----secret----gmail'',
       why = Format_error_need_4_fields \<rparr> \<in> set (failed_details r) \<and>
     \<lparr> line_no = 4, line_content = str ''b@x.com--------cid----tok'',
       why = Blank_field \<rparr> \<in> set (failed_details r) \<and>
     Add_email 1 (str ''a@x.com'') (str ''pw'') (str ''cid'') (str ''tok'') (str ''gmail'')
       \<in> set (trace s')"
proof -
  define data where "data = str ''a@x.com----pw----cid----tok'' @ [10, 10] @
        str ''user@gmail.com----secret----gmail'' @ [10] @ str ''b@x.com--------cid----tok''"
  obtain res s' where
    run0: "import_emails ascii_python sample_env 1 data (str ''gmail'') (sys_of empty_world) =
      (res, s')"
    by (cases "import_emails ascii_python sample_env 1 data (str ''gmail'')
        (sys_of empty_world)") auto
  have "data \<noteq> []" by (simp add: data_def str_def)
  with run0 obtain r where res: "res = Some r"
    by (auto simp: import_emails_def Let_def split: prod.splits)
  note run = run0 [unfolded res]
  have lines: "split (strip ascii_python data) [10] =
      [str ''a@x.com----pw----cid----tok'', [],
       str ''user@gmail.com----secret----gmail'', str ''b@x.com--------cid----tok'']"
    by (simp add: data_def split_def strip_def startswith_def str_def ascii_python_def)
  have s0: "strip ascii_python (str ''a@x.com----pw----cid----tok'') =
      str ''a@x.com----pw----cid----tok''"
    "split (str ''a@x.com----pw----cid----tok'') (str ''----'') =
      [str ''a@x.com'', str ''pw'', str ''cid'', str ''tok'']"
    "str ''a@x.com'' \<noteq> []" "str ''pw'' \<noteq> []" "str ''cid'' \<noteq> []" "str ''tok'' \<noteq> []"
    by (simp_all add: split_def strip_def startswith_def str_def ascii_python_def)
  have s1: "strip ascii_python [] = []" by (simp add: strip_def)
  have s2: "strip ascii_python (str ''user@gmail.com----secret----gmail'') =
      str ''user@gmail.com----secret----gmail''"
    "str ''user@gmail.com----secret----gmail'' \<noteq> []"
    "length (split (str ''user@gmail.com----secret----gmail'') (str ''----'')) = 3"
    by (simp_all add: split_def strip_def startswith_def str_def ascii_python_def)
  have s3: "strip ascii_python (str ''b@x.com--------cid----tok'') =
      str ''b@x.com--------cid----tok''"
    "split (str ''b@x.com--------cid----tok'') (str ''----'') =
      [str ''b@x.com'', [], str ''cid'', str ''tok'']"
    by (simp_all add: split_def strip_def startswith_def str_def ascii_python_def)
  have t: "trace (sys_of empty_world) = []" by (simp add: sys_of_def)
  have 0: "Add_email 1 (str ''a@x.com'') (str ''pw'') (str ''cid'') (str ''tok'') (str ''gmail'')
       \<in> set (trace s')" and tl: "total_lines r = 4"
    using import_lines [OF run, of 0 "str ''a@x.com----pw----cid----tok''"] s0
    unfolding lines t by simp_all
  have 1: "2 \<notin> line_no ` set (failed_details r)"
    using import_lines [OF run, of 1 "[]"] s1 unfolding lines by (simp add: numeral_2_eq_2)
  have 2: "\<lparr> line_no = 3, line_content = str ''user@gmail.com----secret----gmail'',
       why = Format_error_need_4_fields \<rparr> \<in> set (failed_details r)"
    using import_lines [OF run, of 2 "str ''user@gmail.com----secret----gmail''"] s2
    unfolding lines by (simp add: numeral_3_eq_3)
  have 3: "\<lparr> line_no = 4, line_content = str ''b@x.com--------cid----tok'',
       why = Blank_field \<rparr> \<in> set (failed_details r)"
    using import_lines [OF run, of 3 "str ''b@x.com--------cid----tok''"] s3
    unfolding lines by (simp add: eval_nat_numeral)
  from run 0 1 2 3 tl show ?thesis unfolding data_def by blast
qed

section \<open>Verification: the verification-code wait\<close>


lemma try_patterns_Some:
  "try_patterns P ps text = Some c \<Longrightarrow>
   str_isdigit P c \<and> 4 \<le> length c \<and> length c \<le> 8"
  by (induction ps) (simp_all split: option.splits if_splits)

lemma extract_code_Some:
  "extract_code_from_mail P a kw mail = Some r \<Longrightarrow>
   str_isdigit P (code r) \<and> 4 \<le> length (code r) \<and> length (code r) \<le> 8"
  by (auto simp: extract_code_from_mail_def split: if_splits option.splits
      dest: try_patterns_Some)

lemma scan_recent_Some:
  "scan_recent P a kw lim mails = Some r \<Longrightarrow>
   str_isdigit P (code r) \<and> 4 \<le> length (code r) \<and> length (code r) \<le> 8"
proof (induction mails)
  case Nil
  then show ?case by simp
next
  case (Cons mail mails)
  then show ?case
    by (auto split: if_splits sum.splits option.splits dest: extract_code_Some)
qed

lemma scan_new_Some:
  "scan_new P a kw st mails = Some r \<Longrightarrow>
   str_isdigit P (code r) \<and> 4 \<le> length (code r) \<and> length (code r) \<le> 8"
proof (induction mails)
  case Nil
  then show ?case by simp
next
  case (Cons mail mails)
  then show ?case
    by (auto split: if_splits sum.splits option.splits dest: extract_code_Some)
qed

lemma poll_loop_found:
  "fst (poll_loop P E a kw eid st en n rounds s) = Some (Inr (Code_found_200 r)) \<Longrightarrow>
   str_isdigit P (code r) \<and> 4 \<le> length (code r) \<and> length (code r) \<le> 8"
proof (induction rounds arbitrary: n s)
  case 0
  then show ?case by simp
next
  case (Suc rounds)
  show ?case
  proof (cases "now E (world s) < en")
    case False
    with Suc.prems show ?thesis by simp
  next
    case True
    obtain res s' where c: "call (get_mail_records E eid None) (do_sleep E 2 s) = (res, s')"
      by (cases "call (get_mail_records E eid None) (do_sleep E 2 s)") auto
    show ?thesis
    proof (cases res)
      case (Inl e)
      with Suc.prems True c show ?thesis by simp
    next
      case (Inr mails)
      show ?thesis
      proof (cases "n < length mails")
        case False
        with Suc.prems True c Inr
        have "fst (poll_loop P E a kw eid st en n rounds s') = Some (Inr (Code_found_200 r))"
          by simp
        then show ?thesis by (rule Suc.IH)
      next
        case lt: True
        show ?thesis
        proof (cases "scan_new P a kw st mails")
          case None
          with Suc.prems True c Inr lt
          have "fst (poll_loop P E a kw eid st en (length mails) rounds s') =
              Some (Inr (Code_found_200 r))"
            by simp
          then show ?thesis by (rule Suc.IH)
        next
          case (Some r')
          with Suc.prems True c Inr lt have "r' = r" by simp
          with Some show ?thesis by (auto dest: scan_new_Some)
        qed
      qed
    qed
  qed
qed

lemma get_verification_code_found:
  assumes "fst (get_verification_code P E adm uid a kw timeout rounds s) =
      Some (Inr (Code_found_200 r))"
  shows "str_isdigit P (code r) \<and> 4 \<le> length (code r) \<and> length (code r) \<le> 8"
proof -
  from assms have ne: "a \<noteq> []"
    by (auto simp: get_verification_code_def)
  obtain res s1 where c1: "call (get_all_emails E (if adm then None else Some uid)) s = (res, s1)"
    by (cases "call (get_all_emails E (if adm then None else Some uid)) s") auto
  from assms ne c1 obtain emails where res: "res = Inr emails"
    by (cases res) (auto simp: get_verification_code_def)
  from assms ne c1 res obtain info where
    f: "find (\<lambda>e. lower P (email e) = lower P a) emails = Some info"
    by (cases "find (\<lambda>e. lower P (email e) = lower P a) emails")
      (auto simp: get_verification_code_def)
  obtain res2 s2 where c2: "call (get_mail_records E (id' info) None) s1 = (res2, s2)"
    by (cases "call (get_mail_records E (id' info) None) s1") auto
  from assms ne c1 res f c2 obtain mails where res2: "res2 = Inr mails"
    by (cases res2) (auto simp: get_verification_code_def Let_def)
  show ?thesis
  proof (cases "scan_recent P a kw (now E (world s1) - seconds 30) (newest_first P mails)")
    case (Some r')
    with assms ne c1 res f c2 res2 have "r' = r"
      by (simp add: get_verification_code_def Let_def)
    with Some show ?thesis by (auto dest: scan_recent_Some)
  next
    case None
    with assms ne c1 res f c2 res2
    have "fst (poll_loop P E a kw (id' info) (now E (world s1))
        (now E (world s1) + seconds timeout) (length mails) rounds s2) =
        Some (Inr (Code_found_200 r))"
      by (simp add: get_verification_code_def Let_def)
    then show ?thesis by (rule poll_loop_found)
  qed
qed



lemma snd_advance: "snd (advance k pos) = drop k (snd pos)"
  by (simp add: advance_def)

lemma lit_matches_length: "lit_matches P l s \<Longrightarrow> length l \<le> length s"
  by (induction P l s rule: lit_matches.induct) simp_all

lemma rmatch_Rep:
  assumes "(pos', g') \<in> set (rmatch P (Rep a lo hi) pos g)"
  shows "\<exists>k. lo \<le> k \<and> k \<le> length (takeWhile (atom_matches P a) (snd pos)) \<and>
             (\<forall>h. hi = Some h \<longrightarrow> k \<le> h) \<and> pos' = advance k pos \<and> g' = g"
proof -
  define most where "most = (case hi of None \<Rightarrow> length (takeWhile (atom_matches P a) (snd pos))
    | Some h \<Rightarrow> min h (length (takeWhile (atom_matches P a) (snd pos))))"
  from assms have "(pos', g') \<in> (\<lambda>k. (advance k pos, g)) ` set [lo ..< Suc most]"
    by (simp add: Let_def most_def del: upt_Suc)
  then obtain k where k: "lo \<le> k" "k \<le> most" "pos' = advance k pos" "g' = g"
    by (auto simp del: upt_Suc)
  from k(2) have "k \<le> length (takeWhile (atom_matches P a) (snd pos))"
    "\<forall>h. hi = Some h \<longrightarrow> k \<le> h"
    by (auto simp: most_def split: option.splits)
  with k show ?thesis by blast
qed

lemma rmatch_suffix:
  "(pos', g') \<in> set (rmatch P r pos g) \<Longrightarrow>
   \<exists>k. k \<le> length (snd pos) \<and> snd pos' = drop k (snd pos)"
proof (induction r arbitrary: pos g pos' g')
  case (Lit l)
  then show ?case
    by (auto simp: snd_advance split: if_splits dest: lit_matches_length)
next
  case (Rep a lo hi)
  from rmatch_Rep [OF Rep] obtain k where
    k: "k \<le> length (takeWhile (atom_matches P a) (snd pos))" "pos' = advance k pos"
    by blast
  have "length (takeWhile (atom_matches P a) (snd pos)) \<le> length (snd pos)"
    by (rule length_takeWhile_le)
  with k(1) have "k \<le> length (snd pos)" by simp
  with k(2) show ?case by (auto simp: snd_advance)
next
  case (Seq r1 r2)
  from Seq.prems obtain pos1 g1 where
    1: "(pos1, g1) \<in> set (rmatch P r1 pos g)" and
    2: "(pos', g') \<in> set (rmatch P r2 pos1 g1)"
    by auto
  from Seq.IH(1) [OF 1] obtain k1 where
    k1: "k1 \<le> length (snd pos)" "snd pos1 = drop k1 (snd pos)" by blast
  from Seq.IH(2) [OF 2] obtain k2 where
    k2: "k2 \<le> length (snd pos1)" "snd pos' = drop k2 (snd pos1)" by blast
  from k1 k2 have "k1 + k2 \<le> length (snd pos)" "snd pos' = drop (k1 + k2) (snd pos)"
    by (simp_all add: add.commute)
  then show ?case by blast
next
  case (Alt r1 r2)
  from Alt.prems have
    "(pos', g') \<in> set (rmatch P r1 pos g) \<or> (pos', g') \<in> set (rmatch P r2 pos g)"
    by simp
  then show ?case using Alt.IH by blast
next
  case (Group r)
  from Group.prems obtain g1 where "(pos', g1) \<in> set (rmatch P r pos g)" by auto
  then show ?case by (rule Group.IH)
next
  case Word_boundary
  then have "pos' = pos" by (simp split: if_splits)
  then show ?case by (intro exI [of _ 0]) simp
qed

lemma rmatch_groupless:
  "groupless r \<Longrightarrow> (pos', g') \<in> set (rmatch P r pos g) \<Longrightarrow> g' = g"
proof (induction r arbitrary: pos g pos' g')
  case (Seq r1 r2)
  from Seq.prems obtain pos1 g1 where
    1: "(pos1, g1) \<in> set (rmatch P r1 pos g)" and
    2: "(pos', g') \<in> set (rmatch P r2 pos1 g1)"
    by auto
  from Seq.prems(1) have "groupless r1" "groupless r2" by simp_all
  with Seq.IH(1) [OF _ 1] Seq.IH(2) [OF _ 2] show ?case by simp
qed (auto simp: Let_def split: if_splits)

lemma take_within_run:
  "k \<le> length (takeWhile Q xs) \<Longrightarrow> list_all Q (take k xs)"
proof -
  assume k: "k \<le> length (takeWhile Q xs)"
  have "take k (takeWhile Q xs @ dropWhile Q xs) = take k (takeWhile Q xs)"
    using k by (simp del: takeWhile_dropWhile_id)
  then have "take k xs = take k (takeWhile Q xs)" by simp
  then have "set (take k xs) \<subseteq> set (takeWhile Q xs)" by (simp add: set_take_subset)
  then show ?thesis by (auto simp: list_all_iff dest: set_takeWhileD)
qed

lemma code_group_captures:
  assumes "(pos', g') \<in> set (rmatch P (Group (Rep Digit 4 (Some 8))) pos g)"
  shows "\<exists>t. g' = Some t \<and> four_to_eight_digits P t"
proof -
  from assms obtain pos1 g1 where
    m: "(pos1, g1) \<in> set (rmatch P (Rep Digit 4 (Some 8)) pos g)" and
    p: "pos' = pos1" and
    g': "g' = Some (take (length (snd pos) - length (snd pos1)) (snd pos))"
    by auto
  from rmatch_Rep [OF m] obtain k where
    k: "4 \<le> k" "k \<le> length (takeWhile (atom_matches P Digit) (snd pos))" "k \<le> 8"
      "pos1 = advance k pos"
    by auto
  have "length (takeWhile (atom_matches P Digit) (snd pos)) \<le> length (snd pos)"
    by (rule length_takeWhile_le)
  with k(2) have kl: "k \<le> length (snd pos)" by simp
  then have t: "take (length (snd pos) - length (snd pos1)) (snd pos) = take k (snd pos)"
    by (simp add: k(4) snd_advance)
  from k(2) have "list_all (atom_matches P Digit) (take k (snd pos))" by (rule take_within_run)
  then have "list_all (\<lambda>c. decimal P c \<noteq> None) (take k (snd pos))"
    by (simp add: list_all_iff)
  with k kl show ?thesis
    unfolding g' t by (simp add: four_to_eight_digits_def)
qed

lemma rmatch_sets_code:
  "sets_code r \<Longrightarrow> (pos', g') \<in> set (rmatch P r pos g) \<Longrightarrow>
   \<exists>t. g' = Some t \<and> four_to_eight_digits P t"
proof (induction r arbitrary: pos g pos' g')
  case (Seq r1 r2)
  from Seq.prems obtain pos1 g1 where
    1: "(pos1, g1) \<in> set (rmatch P r1 pos g)" and
    2: "(pos', g') \<in> set (rmatch P r2 pos1 g1)"
    by auto
  show ?case
  proof (cases "sets_code r2")
    case True
    then show ?thesis using 2 by (rule Seq.IH(2))
  next
    case False
    with Seq.prems(1) have s1: "sets_code r1" and g2: "groupless r2" by simp_all
    from rmatch_groupless [OF g2 2] have "g' = g1" .
    with Seq.IH(1) [OF s1 1] show ?thesis by simp
  qed
next
  case (Alt r1 r2)
  from Alt.prems have "sets_code r1" "sets_code r2"
    "(pos', g') \<in> set (rmatch P r1 pos g) \<or> (pos', g') \<in> set (rmatch P r2 pos g)"
    by auto
  then show ?case using Alt.IH by blast
next
  case (Group r)
  then have "r = Rep Digit 4 (Some 8)" by simp
  with Group.prems(2) show ?case by (intro code_group_captures) simp
qed simp_all

lemma search_from_sets_code:
  "sets_code r \<Longrightarrow> search_from P r prev text = Some c \<Longrightarrow> four_to_eight_digits P c"
proof (induction "text" arbitrary: prev)
  case Nil
  then obtain pos' g others where m: "rmatch P r (prev, []) None = (pos', g) # others"
    and c: "c = (case g of None \<Rightarrow> [] | Some t \<Rightarrow> t)"
    by (auto split: list.splits)
  from m have "(pos', g) \<in> set (rmatch P r (prev, []) None)" by simp
  from rmatch_sets_code [OF Nil.prems(1) this] c show ?case by auto
next
  case (Cons x xs)
  show ?case
  proof (cases "rmatch P r (prev, x # xs) None")
    case Nil
    with Cons.prems have "search_from P r (Some x) xs = Some c" by simp
    with Cons.IH Cons.prems(1) show ?thesis by blast
  next
    case (Cons a others)
    obtain pos' g where a: "a = (pos', g)" by (cases a)
    with Cons Cons.prems have c: "c = (case g of None \<Rightarrow> [] | Some t \<Rightarrow> t)" by simp
    from Cons a have "(pos', g) \<in> set (rmatch P r (prev, x # xs) None)" by simp
    from rmatch_sets_code [OF Cons.prems(1) this] c show ?thesis by auto
  qed
qed

lemma code_patterns_set_code: "\<forall>p \<in> set code_patterns. sets_code p"
  by (simp add: code_patterns_def code_group_def)

lemma found_is_code:
  assumes d: "decimal_are_digits P" and s: "sets_code p"
    and f: "findall_first P p text = Some c"
  shows "str_isdigit P c \<and> 4 \<le> length c \<and> length c \<le> 8"
proof -
  from search_from_sets_code [OF s f [unfolded findall_first_def]]
  have c: "4 \<le> length c" "length c \<le> 8" "list_all (\<lambda>x. decimal P x \<noteq> None) c"
    by (simp_all add: four_to_eight_digits_def)
  from c(3) d have "list_all (isdigit P) c"
    by (auto simp: list_all_iff decimal_are_digits_def)
  moreover from c(1) have "c \<noteq> []" by auto
  ultimately show ?thesis using c by (simp add: str_isdigit_def)
qed

lemma try_patterns_finds:
  assumes d: "decimal_are_digits P"
  shows "\<forall>q \<in> set ps. sets_code q \<Longrightarrow> p \<in> set ps \<Longrightarrow>
         findall_first P p text \<noteq> None \<Longrightarrow> try_patterns P ps text \<noteq> None"
proof (induction ps)
  case Nil
  then show ?case by simp
next
  case (Cons q ps)
  show ?case
  proof (cases "findall_first P q text")
    case None
    with Cons.prems have "p \<in> set ps" by auto
    with Cons None show ?thesis by simp
  next
    case (Some c)
    from Cons.prems(1) have "sets_code q" by simp
    from found_is_code [OF d this Some] Some show ?thesis by simp
  qed
qed

lemma scan_recent_finds:
  "m \<in> set mails \<Longrightarrow> \<not> falsy (received_time m) \<Longrightarrow>
   mail_time P (the (received_time m)) = Inr t \<Longrightarrow> lim \<le> t \<Longrightarrow>
   extract_code_from_mail P a kw m \<noteq> None \<Longrightarrow>
   scan_recent P a kw lim mails \<noteq> None"
proof (induction mails)
  case Nil
  then show ?case by simp
next
  case (Cons x mails)
  show ?case
  proof (cases "x = m")
    case True
    with Cons.prems show ?thesis by (auto split: option.splits)
  next
    case False
    with Cons.prems have "m \<in> set mails" by simp
    with Cons have "scan_recent P a kw lim mails \<noteq> None" by simp
    then show ?thesis by (auto split: sum.splits option.splits)
  qed
qed

lemma set_newest_first: "set (newest_first P mails) = set mails"
  by (simp add: newest_first_def)

text \<open>What the first scan finds: a code is returned, before any polling, whenever the
  mailbox of the request is found and one of its stored mails has a time that, read
  without time zone, is not more than 30 seconds before \<open>datetime.now()\<close>, passes the
  keyword filter and matches one of the code patterns (\<open>decimal_are_digits\<close> is the fact
  that \<open>str.isdigit\<close> holds of what \<open>\d\<close> matches).\<close>

lemma code_found_by_server_clock:
  assumes d: "decimal_are_digits P" and a: "a \<noteq> []"
    and e: "get_all_emails E (if adm then None else Some uid) (world s) = (Inr emails, w1)"
    and f: "find (\<lambda>e. lower P (email e) = lower P a) emails = Some info"
    and g: "get_mail_records E (id' info) None w1 = (Inr mails, w2)"
    and m: "m \<in> set mails" "received_time m = Some rt" "rt \<noteq> []"
      "mail_time P rt = Inr t" "now E w1 - seconds 30 \<le> t"
    and k: "passes_keyword_filter P kw m"
    and p: "p \<in> set code_patterns" "findall_first P p (text_to_search m) \<noteq> None"
  shows "\<exists>r'. fst (get_verification_code P E adm uid a kw timeout rounds s) =
            Some (Inr (Code_found_200 r')) \<and>
          str_isdigit P (code r') \<and> 4 \<le> length (code r') \<and> length (code r') \<le> 8"
proof -
  from try_patterns_finds [OF d code_patterns_set_code p]
  have "try_patterns P code_patterns (text_to_search m) \<noteq> None" .
  with k have x: "extract_code_from_mail P a kw m \<noteq> None"
    by (auto simp: extract_code_from_mail_def)
  have nf: "\<not> falsy (received_time m)" using m(2,3) by (simp add: falsy_def)
  have mt: "mail_time P (the (received_time m)) = Inr t" using m(2,4) by simp
  have "m \<in> set (newest_first P mails)" using m(1) by (simp add: set_newest_first)
  from scan_recent_finds [OF this nf mt m(5) x]
  obtain r' where sc: "scan_recent P a kw (now E w1 - seconds 30) (newest_first P mails) =
      Some r'"
    by auto
  then have "fst (get_verification_code P E adm uid a kw timeout rounds s) =
      Some (Inr (Code_found_200 r'))"
    using a e f g by (simp add: get_verification_code_def call_def Let_def)
  moreover from scan_recent_Some [OF sc]
  have "str_isdigit P (code r') \<and> 4 \<le> length (code r') \<and> length (code r') \<le> 8" .
  ultimately show ?thesis by blast
qed

text \<open>
  C3 (the code at the failing input, and the part of the claim that holds). The server's
  local time is UTC+8. A mail with the subject "Your code is 482917" was received five
  seconds before the request and stored by the fetch job with its UTC reading,
  \<open>2026-01-09 04:00:00\<close>; it passes the keyword filter and the second pattern finds
  \<open>482917\<close> in it. \<open>get_verification_code\<close> compares that reading with
  \<open>datetime.now()\<close>, the server's local 12:00:05, takes the mail to be eight hours old
  and passes it over; the polling loop, which looks at the store only when the number of
  mails has grown, waits out the timeout (here 4 seconds), and the answer is 404.
  What holds for every store, keyword and request: a code that
  \<open>get_verification_code\<close> returns, from the first scan or from the polling loop, is
  a string of digits of length 4 to 8, so never longer than 8.
\<close>

theorem recent_code_mail_missed:
  "fst (get_verification_code ascii_python ticking_env False 1 (str ''A@outlook.com'') []
          4 3 (sys_of world7_utc8)) = Some (Inr No_code_404) \<and>
   extract_code_from_mail ascii_python (str ''A@outlook.com'') [] utc_code_mail =
     Some \<lparr> code_email = str ''A@outlook.com'', code = str ''482917'',
            code_mail = utc_code_mail \<rparr> \<and>
   (fst (get_verification_code P E adm uid a kw timeout rounds s) =
      Some (Inr (Code_found_200 r)) \<longrightarrow>
    str_isdigit P (code r) \<and> 4 \<le> length (code r) \<and> length (code r) \<le> 8)"
proof -
  have 1: "fst (get_verification_code ascii_python ticking_env False 1 (str ''A@outlook.com'') []
          4 3 (sys_of world7_utc8)) = Some (Inr No_code_404)"
    by (simp add: get_verification_code_def call_def Let_def ticking_env_def sample_env_def
        sys_of_def world7_utc8_def world7_def mailbox7_def utc_code_mail_def code_mail_def
        sw_mails_of_def ascii_python_def ascii_lower_def str_def newest_first_def
        get_mail_time_def mail_time_def contains_def startswith_def falsy_def seconds_def
        do_sleep_def emit_def numeral_3_eq_3 without_utc_def replace_def)
  have 2: "extract_code_from_mail ascii_python (str ''A@outlook.com'') [] utc_code_mail =
     Some \<lparr> code_email = str ''A@outlook.com'', code = str ''482917'',
            code_mail = utc_code_mail \<rparr>"
    by (simp add: extract_code_from_mail_def passes_keyword_filter_def code_keywords_def
        mentions_def contains_def utc_code_mail_def code_mail_def text_to_search_def
        code_patterns_def findall_first_def separators_def code_group_def str_isdigit_def
        ascii_python_def ascii_lower_def str_def startswith_def advance_def Let_def)
  have 3: "str_isdigit P (code r) \<and> 4 \<le> length (code r) \<and> length (code r) \<le> 8"
    if "fst (get_verification_code P E adm uid a kw timeout rounds s) =
      Some (Inr (Code_found_200 r))"
    using that by (rule get_verification_code_found)
  from 1 2 3 show ?thesis by blast
qed

text \<open>On a server whose local time is UTC the same mail, stored as \<open>2026-01-09
  12:00:00\<close> and five seconds old by the clock, is found by the first scan.\<close>

theorem recent_code_mail_missed_witness:
  "(\<exists>r'. fst (get_verification_code ascii_python sample_env False 1 (str ''A@outlook.com'') []
            10 0 (sys_of world7_code)) = Some (Inr (Code_found_200 r')) \<and>
        str_isdigit ascii_python (code r') \<and> 4 \<le> length (code r') \<and> length (code r') \<le> 8) \<and>
   fst (get_verification_code ascii_python ticking_env False 1 (str ''A@outlook.com'') []
          4 3 (sys_of world7_utc8)) = Some (Inr No_code_404)"
proof -
  let ?p = "Seq (Lit (str ''code''))
        (Seq (Rep separators 1 None)
           (Seq (Lit (str ''is'')) (Seq (Rep separators 1 None) code_group)))"
  have 1: "decimal_are_digits ascii_python"
    by (simp add: decimal_are_digits_def ascii_python_def)
  have 2: "str ''A@outlook.com'' \<noteq> []" by (simp add: str_def)
  have 3: "get_all_emails sample_env (if False then None else Some 1)
      (world (sys_of world7_code)) = (Inr [mailbox7], world7_code)"
    by (simp add: sample_env_def sys_of_def world7_code_def world7_def mailbox7_def)
  have 4: "find (\<lambda>e. lower ascii_python (email e) = lower ascii_python (str ''A@outlook.com''))
      [mailbox7] = Some mailbox7"
    by (simp add: ascii_python_def ascii_lower_def mailbox7_def str_def)
  have 5: "get_mail_records sample_env (id' mailbox7) None world7_code =
      (Inr [code_mail], world7_code)"
    by (simp add: sample_env_def sw_mails_of_def world7_code_def world7_def mailbox7_def)
  have 6: "code_mail \<in> set [code_mail]"
    "received_time code_mail = Some (str ''2026-01-09 12:00:00'')"
    "str ''2026-01-09 12:00:00'' \<noteq> []"
    by (simp_all add: code_mail_def str_def)
  have 7: "mail_time ascii_python (str ''2026-01-09 12:00:00'') = Inr 0"
    by (simp add: mail_time_def ascii_python_def str_def startswith_def contains_def)
  have 8: "now sample_env world7_code - seconds 30 \<le> 0"
    by (simp add: sample_env_def world7_code_def world7_def seconds_def)
  have 9: "passes_keyword_filter ascii_python [] code_mail"
    by (simp add: passes_keyword_filter_def code_keywords_def mentions_def code_mail_def
        ascii_python_def ascii_lower_def str_def startswith_def contains_def)
  have 10: "?p \<in> set code_patterns" by (simp add: code_patterns_def)
  have t: "text_to_search code_mail = str ''Your code is 482917 482917''"
    by (simp add: text_to_search_def code_mail_def str_def)
  have "findall_first ascii_python ?p (str ''Your code is 482917 482917'') =
      Some (str ''482917'')"
    by (simp add: findall_first_def separators_def code_group_def str_def ascii_python_def
        ascii_lower_def advance_def Let_def)
  then have 11: "findall_first ascii_python ?p (text_to_search code_mail) \<noteq> None"
    by (simp add: t)
  from code_found_by_server_clock [OF 1 2 3 4 5 6 7 8 9 10 11, of 10 0]
  obtain r' where f: "fst (get_verification_code ascii_python sample_env False 1
      (str ''A@outlook.com'') [] 10 0 (sys_of world7_code)) = Some (Inr (Code_found_200 r'))"
    by blast
  from recent_code_mail_missed [of ascii_python sample_env False 1 "str ''A@outlook.com''"
      "[]" 10 0 "sys_of world7_code" r'] f
  show ?thesis by blast
qed

end
